theory Spec2Isabelle
  imports Main "HOL-Library.Char_ord" "HOL-Library.List_Lexorder" "HOL-Library.Multiset"
begin

section \<open>Python values and exceptions\<close>

text \<open>
  The module is Python 2 (\<^verbatim>\<open>izip\<close>, \<^verbatim>\<open>iteritems\<close>, a \<^verbatim>\<open>map\<close> that returns a list).
  A field of a tuple object holds whatever it was given: a string (a read name taken from
  an alignment), an integer, or \<^verbatim>\<open>None\<close> (both produced by \<^verbatim>\<open>int_or_none\<close>, names
  included).
\<close>

datatype pyval = PNone | PInt int | PStr string

datatype error = AssertionError | AttributeError | ValueError | TypeError | IOError | CsvError

text \<open>
  \<^verbatim>\<open>a <= b\<close> in CPython 2: \<^verbatim>\<open>None\<close> is below every other value, a number is below
  every string, integers compare by value and byte strings lexicographically.
\<close>

fun py_le :: "pyval \<Rightarrow> pyval \<Rightarrow> bool" where
  "py_le PNone _ = True"
| "py_le (PInt a) PNone = False"
| "py_le (PInt a) (PInt b) = (a \<le> b)"
| "py_le (PInt a) (PStr t) = True"
| "py_le (PStr s) PNone = False"
| "py_le (PStr s) (PInt b) = False"
| "py_le (PStr s) (PStr t) = (s \<le> t)"

text \<open>\<^verbatim>\<open>max(a, b)\<close>: the first argument is kept unless the second is strictly greater.\<close>

definition py_max :: "pyval \<Rightarrow> pyval \<Rightarrow> pyval" where
  "py_max a b = (if \<not> py_le b a then b else a)"

text \<open>An attribute whose value is an integer or \<^verbatim>\<open>None\<close>.\<close>

fun of_opt :: "int option \<Rightarrow> pyval" where
  "of_opt None = PNone"
| "of_opt (Some i) = PInt i"

section \<open>The alignment object\<close>

text \<open>
  \<^verbatim>\<open>read.Alignment\<close> is imported, not defined, by the module. The record holds what the
  module reads off it. \<open>name\<close>, \<open>bestScore\<close>, \<open>al_mapq\<close> (the attribute \<^verbatim>\<open>mapq\<close>) and
  the three flags are always there; \<open>al_len\<close> is \<^verbatim>\<open>len(al)\<close>; \<open>secondBestScore\<close> is always
  there and may be \<^verbatim>\<open>None\<close>. The other five attributes are tested with \<^verbatim>\<open>hasattr\<close>:
  \<open>None\<close> is an object without the attribute, \<open>Some v\<close> one that has it, with the
  integer \<open>v\<close>.
\<close>

record Alignment =
  name :: string
  al_len :: nat
  bestScore :: int
  secondBestScore :: "int option"
  al_mapq :: int
  thirdBestScore :: "int option"
  minValid :: "int option"
  maxValid :: "int option"
  bestConcordantScore :: "int option"
  secondBestConcordantScore :: "int option"
  concordant :: bool
  discordant :: bool
  paired :: bool

text \<open>The unaligned mate handed to \<^verbatim>\<open>add_bad_end\<close>: only its sequence is read.\<close>

record Read =
  seq :: string

section \<open>UnpairedTuple\<close>

record UnpairedTuple =
  rdname :: pyval
  rdlen :: pyval
  ordlen :: pyval
  minv :: pyval
  maxv :: pyval
  bestsc :: pyval
  best2sc :: pyval
  mapq :: pyval

text \<open>\<^verbatim>\<open>__init__\<close>: \<^verbatim>\<open>assert minv is None or minv <= bestsc <= maxv\<close>, then the fields.\<close>

definition UnpairedTuple_init ::
  "pyval \<Rightarrow> pyval \<Rightarrow> pyval \<Rightarrow> pyval \<Rightarrow> pyval \<Rightarrow> pyval \<Rightarrow> pyval \<Rightarrow> pyval
     \<Rightarrow> error + UnpairedTuple" where
  "UnpairedTuple_init rdname0 rdlen0 minv0 maxv0 bestsc0 best2sc0 mapq0 ordlen0 =
     (if minv0 = PNone \<or> (py_le minv0 bestsc0 \<and> py_le bestsc0 maxv0)
      then Inr \<lparr>rdname = rdname0, rdlen = rdlen0, ordlen = ordlen0, minv = minv0,
                maxv = maxv0, bestsc = bestsc0, best2sc = best2sc0, mapq = mapq0\<rparr>
      else Inl AssertionError)"

text \<open>\<^verbatim>\<open>__iter__\<close>: the list the object iterates over.\<close>

definition UnpairedTuple_iter :: "UnpairedTuple \<Rightarrow> pyval list" where
  "UnpairedTuple_iter self =
     [rdname self, bestsc self, best2sc self, minv self, maxv self, rdlen self, mapq self,
      ordlen self]"

text \<open>\<^verbatim>\<open>from_alignment(cls, al, ordlen=0)\<close>; the caller passes \<open>PInt 0\<close> for the default.\<close>

definition from_alignment :: "Alignment \<Rightarrow> pyval \<Rightarrow> error + UnpairedTuple" where
  "from_alignment al ordlen0 =
     (let secbest = of_opt (secondBestScore al);
          secbest = (case thirdBestScore al of
                       None \<Rightarrow> secbest
                     | Some third \<Rightarrow> py_max secbest (PInt third))
      in case minValid al of
           None \<Rightarrow>
             UnpairedTuple_init (PStr (name al)) (PInt (int (al_len al))) PNone PNone
               (PInt (bestScore al)) secbest (PInt (al_mapq al)) ordlen0
         | Some mn \<Rightarrow>
             (case maxValid al of
                None \<Rightarrow> Inl AssertionError
              | Some mx \<Rightarrow>
                  UnpairedTuple_init (PStr (name al)) (PInt (int (al_len al))) (PInt mn)
                    (PInt mx) (PInt (bestScore al)) secbest (PInt (al_mapq al)) ordlen0))"

section \<open>PairedTuple\<close>

record PairedTuple =
  rdname1 :: pyval
  rdname2 :: pyval
  rdlen1 :: pyval
  rdlen2 :: pyval
  minv1 :: pyval
  minv2 :: pyval
  maxv1 :: pyval
  maxv2 :: pyval
  bestsc1 :: pyval
  bestsc2 :: pyval
  best2sc1 :: pyval
  best2sc2 :: pyval
  mapq1 :: pyval
  mapq2 :: pyval
  bestconcsc :: pyval
  best2concsc :: pyval
  fraglen :: pyval

text \<open>\<^verbatim>\<open>__init__\<close>: one assertion for each mate, mate 1 first.\<close>

definition PairedTuple_init ::
  "pyval \<Rightarrow> pyval \<Rightarrow> pyval \<Rightarrow> pyval \<Rightarrow> pyval \<Rightarrow> pyval \<Rightarrow> pyval
     \<Rightarrow> pyval \<Rightarrow> pyval \<Rightarrow> pyval \<Rightarrow> pyval \<Rightarrow> pyval \<Rightarrow> pyval \<Rightarrow> pyval
     \<Rightarrow> pyval \<Rightarrow> pyval \<Rightarrow> pyval \<Rightarrow> error + PairedTuple" where
  "PairedTuple_init n1 l1 mn1 mx1 b1 s1 q1 n2 l2 mn2 mx2 b2 s2 q2 bc sc fl =
     (if \<not> (mn1 = PNone \<or> (py_le mn1 b1 \<and> py_le b1 mx1)) then Inl AssertionError
      else if \<not> (mn2 = PNone \<or> (py_le mn2 b2 \<and> py_le b2 mx2)) then Inl AssertionError
      else Inr \<lparr>rdname1 = n1, rdname2 = n2, rdlen1 = l1, rdlen2 = l2, minv1 = mn1,
                minv2 = mn2, maxv1 = mx1, maxv2 = mx2, bestsc1 = b1, bestsc2 = b2,
                best2sc1 = s1, best2sc2 = s2, mapq1 = q1, mapq2 = q2, bestconcsc = bc,
                best2concsc = sc, fraglen = fl\<rparr>)"

definition PairedTuple_iter :: "PairedTuple \<Rightarrow> pyval list" where
  "PairedTuple_iter self =
     [rdname1 self, bestsc1 self, best2sc1 self, minv1 self, maxv1 self, rdlen1 self,
      mapq1 self,
      rdname2 self, bestsc2 self, best2sc2 self, minv2 self, maxv2 self, rdlen2 self,
      mapq2 self,
      bestconcsc self, best2concsc self, fraglen self]"

text \<open>
  \<^verbatim>\<open>from_alignments(cls, al1, al2)\<close>, in four steps as the source has them. The presence
  of every optional attribute is tested on \<open>al1\<close> only; \<open>al2\<close>'s are then asserted
  (\<open>AssertionError\<close>) or simply read (\<open>AttributeError\<close> when missing).
  \<^verbatim>\<open>Alignment.fragment_length\<close> is not in the module: it is the parameter \<open>fragment_length\<close>.
\<close>

definition second_best_pair :: "Alignment \<Rightarrow> Alignment \<Rightarrow> error + pyval \<times> pyval" where
  "second_best_pair al1 al2 =
     (let secbest1 = of_opt (secondBestScore al1); secbest2 = of_opt (secondBestScore al2)
      in case thirdBestScore al1 of
           None \<Rightarrow> Inr (secbest1, secbest2)
         | Some third1 \<Rightarrow>
             (case thirdBestScore al2 of
                None \<Rightarrow> Inl AssertionError
              | Some third2 \<Rightarrow>
                  Inr (py_max secbest1 (PInt third1), py_max secbest2 (PInt third2))))"

definition valid_bounds_pair ::
  "Alignment \<Rightarrow> Alignment \<Rightarrow> error + (pyval \<times> pyval) \<times> (pyval \<times> pyval)" where
  "valid_bounds_pair al1 al2 =
     (case minValid al1 of
        None \<Rightarrow> Inr ((PNone, PNone), (PNone, PNone))
      | Some mn1 \<Rightarrow>
          (case minValid al2 of
             None \<Rightarrow> Inl AttributeError
           | Some mn2 \<Rightarrow>
               (case maxValid al1 of
                  None \<Rightarrow> Inl AttributeError
                | Some mx1 \<Rightarrow>
                    (case maxValid al2 of
                       None \<Rightarrow> Inl AttributeError
                     | Some mx2 \<Rightarrow> Inr ((PInt mn1, PInt mn2), (PInt mx1, PInt mx2))))))"

definition concordant_scores :: "Alignment \<Rightarrow> Alignment \<Rightarrow> error + pyval \<times> pyval" where
  "concordant_scores al1 al2 =
     (case bestConcordantScore al1 of
        None \<Rightarrow> Inr (PNone, PNone)
      | Some bc1 \<Rightarrow>
          (case bestConcordantScore al2 of
             None \<Rightarrow> Inl AssertionError
           | Some bc2 \<Rightarrow>
               (case secondBestConcordantScore al1 of
                  None \<Rightarrow> Inl AssertionError
                | Some sc1 \<Rightarrow>
                    (case secondBestConcordantScore al2 of
                       None \<Rightarrow> Inl AssertionError
                     | Some sc2 \<Rightarrow>
                         if bc1 \<noteq> bc2 then Inl AssertionError
                         else if sc1 \<noteq> sc2 then Inl AssertionError
                         else Inr (PInt bc1, PInt sc1)))))"

definition from_alignments ::
  "(Alignment \<Rightarrow> Alignment \<Rightarrow> pyval) \<Rightarrow> Alignment \<Rightarrow> Alignment \<Rightarrow> error + PairedTuple" where
  "from_alignments fragment_length al1 al2 =
     (case second_best_pair al1 al2 of
        Inl e \<Rightarrow> Inl e
      | Inr (secbest1, secbest2) \<Rightarrow>
          (case valid_bounds_pair al1 al2 of
             Inl e \<Rightarrow> Inl e
           | Inr ((min_valid1, min_valid2), (max_valid1, max_valid2)) \<Rightarrow>
               (case concordant_scores al1 al2 of
                  Inl e \<Rightarrow> Inl e
                | Inr (best_concordant_score, second_best_concordant_score) \<Rightarrow>
                    PairedTuple_init
                      (PStr (name al1)) (PInt (int (al_len al1))) min_valid1 max_valid1
                      (PInt (bestScore al1)) secbest1 (PInt (al_mapq al1))
                      (PStr (name al2)) (PInt (int (al_len al2))) min_valid2 max_valid2
                      (PInt (bestScore al2)) secbest2 (PInt (al_mapq al2))
                      best_concordant_score second_best_concordant_score
                      (fragment_length al1 al2))))"

section \<open>Dataset: the four collections and the add operations\<close>

text \<open>A label is \<^verbatim>\<open>True\<close>, \<^verbatim>\<open>False\<close> or \<^verbatim>\<open>None\<close>.\<close>

record Dataset =
  data_unp :: "UnpairedTuple list"
  lab_unp :: "bool option list"
  data_conc :: "PairedTuple list"
  lab_conc :: "bool option list"
  data_disc :: "PairedTuple list"
  lab_disc :: "bool option list"
  data_bad_end :: "UnpairedTuple list"
  lab_bad_end :: "bool option list"

definition Dataset_init :: Dataset where
  "Dataset_init =
     \<lparr>data_unp = [], lab_unp = [], data_conc = [], lab_conc = [], data_disc = [],
      lab_disc = [], data_bad_end = [], lab_bad_end = []\<rparr>"

definition add_concordant ::
  "(Alignment \<Rightarrow> Alignment \<Rightarrow> pyval) \<Rightarrow> Dataset \<Rightarrow> Alignment \<Rightarrow> Alignment
     \<Rightarrow> bool option \<Rightarrow> bool option \<Rightarrow> error + Dataset" where
  "add_concordant fragment_length self al1 al2 correct1 correct2 =
     (if \<not> (concordant al1 \<and> concordant al2) then Inl AssertionError
      else case from_alignments fragment_length al1 al2 of
             Inl e \<Rightarrow> Inl e
           | Inr rec1 \<Rightarrow>
               (case from_alignments fragment_length al2 al1 of
                  Inl e \<Rightarrow> Inl e
                | Inr rec2 \<Rightarrow>
                    Inr (self\<lparr>data_conc := data_conc self @ [rec1] @ [rec2],
                              lab_conc := lab_conc self @ [correct1, correct2]\<rparr>)))"

definition add_discordant ::
  "(Alignment \<Rightarrow> Alignment \<Rightarrow> pyval) \<Rightarrow> Dataset \<Rightarrow> Alignment \<Rightarrow> Alignment
     \<Rightarrow> bool option \<Rightarrow> bool option \<Rightarrow> error + Dataset" where
  "add_discordant fragment_length self al1 al2 correct1 correct2 =
     (if \<not> (discordant al1 \<and> discordant al2) then Inl AssertionError
      else case from_alignments fragment_length al1 al2 of
             Inl e \<Rightarrow> Inl e
           | Inr rec1 \<Rightarrow>
               (case from_alignments fragment_length al2 al1 of
                  Inl e \<Rightarrow> Inl e
                | Inr rec2 \<Rightarrow>
                    Inr (self\<lparr>data_disc := data_disc self @ [rec1] @ [rec2],
                              lab_disc := lab_disc self @ [correct1, correct2]\<rparr>)))"

definition add_bad_end :: "Dataset \<Rightarrow> Alignment \<Rightarrow> Read \<Rightarrow> bool option \<Rightarrow> error + Dataset" where
  "add_bad_end self al unaligned correct =
     (if \<not> paired al then Inl AssertionError
      else case from_alignment al (PInt (int (length (seq unaligned)))) of
             Inl e \<Rightarrow> Inl e
           | Inr r \<Rightarrow>
               Inr (self\<lparr>data_bad_end := data_bad_end self @ [r],
                         lab_bad_end := lab_bad_end self @ [correct]\<rparr>))"

definition add_unpaired :: "Dataset \<Rightarrow> Alignment \<Rightarrow> bool option \<Rightarrow> error + Dataset" where
  "add_unpaired self al correct =
     (case from_alignment al (PInt 0) of
        Inl e \<Rightarrow> Inl e
      | Inr r \<Rightarrow>
          Inr (self\<lparr>data_unp := data_unp self @ [r], lab_unp := lab_unp self @ [correct]\<rparr>))"

section \<open>Text: \<^verbatim>\<open>str\<close>, \<^verbatim>\<open>int\<close> and \<^verbatim>\<open>join\<close>\<close>

definition digit_char :: "nat \<Rightarrow> char" where
  "digit_char d = ''0123456789'' ! d"

fun str_nat :: "nat \<Rightarrow> string" where
  "str_nat n = (if n < 10 then [digit_char n] else str_nat (n div 10) @ [digit_char (n mod 10)])"

declare str_nat.simps [simp del]

definition str_int :: "int \<Rightarrow> string" where
  "str_int i = (if i < 0 then CHR ''-'' # str_nat (nat (- i)) else str_nat (nat i))"

text \<open>\<^verbatim>\<open>str(x)\<close>.\<close>

fun py_str :: "pyval \<Rightarrow> string" where
  "py_str PNone = ''None''"
| "py_str (PInt i) = str_int i"
| "py_str (PStr s) = s"

text \<open>
  \<^verbatim>\<open>int(s)\<close> on a byte string, base 10: white space around the literal is dropped, then
  an optional sign and at least one decimal digit; anything else is a \<^verbatim>\<open>ValueError\<close>.
\<close>

definition is_space :: "char \<Rightarrow> bool" where
  "is_space c = (c \<in> set [CHR '' '', CHR 0x09, CHR 0x0A, CHR 0x0B, CHR 0x0C, CHR 0x0D])"

definition strip :: "string \<Rightarrow> string" where
  "strip s = dropWhile is_space (rev (dropWhile is_space (rev s)))"

definition is_digit :: "char \<Rightarrow> bool" where
  "is_digit c = (c \<in> set ''0123456789'')"

definition digit_val :: "char \<Rightarrow> nat" where
  "digit_val c = of_char c - 48"

fun nat_of_digits :: "nat \<Rightarrow> string \<Rightarrow> nat" where
  "nat_of_digits acc [] = acc"
| "nat_of_digits acc (c # cs) = nat_of_digits (10 * acc + digit_val c) cs"

definition unsigned_int :: "string \<Rightarrow> error + int" where
  "unsigned_int ds =
     (if ds \<noteq> [] \<and> list_all is_digit ds then Inr (int (nat_of_digits 0 ds))
      else Inl ValueError)"

definition py_int :: "string \<Rightarrow> error + int" where
  "py_int s =
     (case strip s of
        [] \<Rightarrow> Inl ValueError
      | c # cs \<Rightarrow>
          if c = CHR ''-'' then
            (case unsigned_int cs of Inl e \<Rightarrow> Inl e | Inr v \<Rightarrow> Inr (- v))
          else if c = CHR ''+'' then unsigned_int cs
          else unsigned_int (c # cs))"

text \<open>\<^verbatim>\<open>sep.join(xs)\<close>.\<close>

fun join :: "string \<Rightarrow> string list \<Rightarrow> string" where
  "join sep [] = []"
| "join sep [x] = x"
| "join sep (x # y # ys) = x @ sep @ join sep (y # ys)"

section \<open>The csv reader\<close>

text \<open>
  \<^verbatim>\<open>csv.reader(fh)\<close> is the library's, in its default dialect: delimiter comma, quote
  character \<^verbatim>\<open>"\<close> doubled inside a quoted field, no escape character, not strict.
  It is the automaton of CPython 2's \<^verbatim>\<open>_csv.c\<close>, under the names it has there. The
  two states that only an escape character enters are left out.
\<close>

text \<open>
  The lines a file object iterates over: each ends with its line feed, the last one
  possibly without.
\<close>

fun split_lines :: "string \<Rightarrow> string \<Rightarrow> string list" where
  "split_lines cur [] = (if cur = [] then [] else [cur])"
| "split_lines cur (c # cs) =
     (if c = CHR 0x0A then (cur @ [c]) # split_lines [] cs else split_lines (cur @ [c]) cs)"

definition file_lines :: "string \<Rightarrow> string list" where
  "file_lines text0 = split_lines [] text0"

datatype ParserState =
  START_RECORD | START_FIELD | IN_FIELD | IN_QUOTED_FIELD | QUOTE_IN_QUOTED_FIELD | EAT_CRNL

record ReaderObj =
  rd_state :: ParserState
  rd_fields :: "string list"
  rd_field :: string

definition parse_reset :: ReaderObj where
  "parse_reset = \<lparr>rd_state = START_RECORD, rd_fields = [], rd_field = []\<rparr>"

definition parse_save_field :: "ReaderObj \<Rightarrow> ReaderObj" where
  "parse_save_field self = self\<lparr>rd_fields := rd_fields self @ [rd_field self], rd_field := []\<rparr>"

text \<open>\<^verbatim>\<open>csv.field_size_limit()\<close>, at its default.\<close>

definition field_limit :: nat where
  "field_limit = 131072"

definition parse_add_char :: "ReaderObj \<Rightarrow> char \<Rightarrow> error + ReaderObj" where
  "parse_add_char self c =
     (if field_limit \<le> length (rd_field self) then Inl CsvError
      else Inr (self\<lparr>rd_field := rd_field self @ [c]\<rparr>))"

text \<open>
  \<^verbatim>\<open>parse_process_char\<close>. The character \<open>None\<close> is the \<^verbatim>\<open>'\0'\<close> the reader feeds
  after the last character of each line. \<open>start_field\<close> is the case \<^verbatim>\<open>START_FIELD\<close>,
  which the case \<^verbatim>\<open>START_RECORD\<close> falls through to.
\<close>

definition start_field :: "ReaderObj \<Rightarrow> char option \<Rightarrow> error + ReaderObj" where
  "start_field self c =
     (case c of
        None \<Rightarrow> Inr ((parse_save_field self)\<lparr>rd_state := START_RECORD\<rparr>)
      | Some ch \<Rightarrow>
          if ch = CHR 0x0A \<or> ch = CHR 0x0D
          then Inr ((parse_save_field self)\<lparr>rd_state := EAT_CRNL\<rparr>)
          else if ch = CHR 0x22 then Inr (self\<lparr>rd_state := IN_QUOTED_FIELD\<rparr>)
          else if ch = CHR '','' then Inr (parse_save_field self)
          else (case parse_add_char self ch of
                  Inl e \<Rightarrow> Inl e
                | Inr self' \<Rightarrow> Inr (self'\<lparr>rd_state := IN_FIELD\<rparr>)))"

definition parse_process_char :: "ReaderObj \<Rightarrow> char option \<Rightarrow> error + ReaderObj" where
  "parse_process_char self c =
     (case rd_state self of
        START_RECORD \<Rightarrow>
          (case c of
             None \<Rightarrow> Inr self
           | Some ch \<Rightarrow>
               if ch = CHR 0x0A \<or> ch = CHR 0x0D then Inr (self\<lparr>rd_state := EAT_CRNL\<rparr>)
               else start_field (self\<lparr>rd_state := START_FIELD\<rparr>) c)
      | START_FIELD \<Rightarrow> start_field self c
      | IN_FIELD \<Rightarrow>
          (case c of
             None \<Rightarrow> Inr ((parse_save_field self)\<lparr>rd_state := START_RECORD\<rparr>)
           | Some ch \<Rightarrow>
               if ch = CHR 0x0A \<or> ch = CHR 0x0D
               then Inr ((parse_save_field self)\<lparr>rd_state := EAT_CRNL\<rparr>)
               else if ch = CHR '','' then Inr ((parse_save_field self)\<lparr>rd_state := START_FIELD\<rparr>)
               else parse_add_char self ch)
      | IN_QUOTED_FIELD \<Rightarrow>
          (case c of
             None \<Rightarrow> Inr self
           | Some ch \<Rightarrow>
               if ch = CHR 0x22 then Inr (self\<lparr>rd_state := QUOTE_IN_QUOTED_FIELD\<rparr>)
               else parse_add_char self ch)
      | QUOTE_IN_QUOTED_FIELD \<Rightarrow>
          (case c of
             None \<Rightarrow> Inr ((parse_save_field self)\<lparr>rd_state := START_RECORD\<rparr>)
           | Some ch \<Rightarrow>
               if ch = CHR 0x22
               then (case parse_add_char self ch of
                       Inl e \<Rightarrow> Inl e
                     | Inr self' \<Rightarrow> Inr (self'\<lparr>rd_state := IN_QUOTED_FIELD\<rparr>))
               else if ch = CHR '','' then Inr ((parse_save_field self)\<lparr>rd_state := START_FIELD\<rparr>)
               else if ch = CHR 0x0A \<or> ch = CHR 0x0D
               then Inr ((parse_save_field self)\<lparr>rd_state := EAT_CRNL\<rparr>)
               else (case parse_add_char self ch of
                       Inl e \<Rightarrow> Inl e
                     | Inr self' \<Rightarrow> Inr (self'\<lparr>rd_state := IN_FIELD\<rparr>)))
      | EAT_CRNL \<Rightarrow>
          (case c of
             None \<Rightarrow> Inr (self\<lparr>rd_state := START_RECORD\<rparr>)
           | Some ch \<Rightarrow> if ch = CHR 0x0A \<or> ch = CHR 0x0D then Inr self else Inl CsvError))"

text \<open>
  One line handed to the automaton: a NUL byte in the line is an error, and the line is
  closed by the character \<open>None\<close>.
\<close>

fun process_chars :: "ReaderObj \<Rightarrow> string \<Rightarrow> error + ReaderObj" where
  "process_chars self [] = Inr self"
| "process_chars self (c # cs) =
     (if c = CHR 0x00 then Inl CsvError
      else case parse_process_char self (Some c) of
             Inl e \<Rightarrow> Inl e
           | Inr self' \<Rightarrow> process_chars self' cs)"

definition process_line :: "ReaderObj \<Rightarrow> string \<Rightarrow> error + ReaderObj" where
  "process_line self line =
     (case process_chars self line of
        Inl e \<Rightarrow> Inl e
      | Inr self' \<Rightarrow> parse_process_char self' None)"

text \<open>
  \<^verbatim>\<open>Reader_iternext\<close>, called until the input is exhausted: lines are consumed until the
  automaton is back in \<^verbatim>\<open>START_RECORD\<close>, which completes a row, and the automaton is
  reset for the next row. Input that ends inside a quoted field yields what has been read
  as a last row. The result is the rows in the order the reader yields them and, when
  the reader raises, its error: the rows before the error have been handed out by then.
\<close>

fun read_records :: "ReaderObj \<Rightarrow> string list \<Rightarrow> string list list \<times> error option" where
  "read_records self [] =
     (if rd_field self \<noteq> [] \<or> rd_state self = IN_QUOTED_FIELD
      then ([rd_fields (parse_save_field self)], None)
      else ([], None))"
| "read_records self (line # lines) =
     (case process_line self line of
        Inl e \<Rightarrow> ([], Some e)
      | Inr self' \<Rightarrow>
          if rd_state self' \<noteq> START_RECORD then read_records self' lines
          else (case read_records parse_reset lines of
                  (rows, err) \<Rightarrow> (rd_fields self' # rows, err)))"

definition csv_reader :: "string \<Rightarrow> string list list \<times> error option" where
  "csv_reader text0 = read_records parse_reset (file_lines text0)"

text \<open>
  The end of a loop over the rows of a reader: every row the reader yielded has been
  consumed, and the reader's own error, if it met one, is raised then.
\<close>

definition reader_end :: "error option \<Rightarrow> 'a \<Rightarrow> error + 'a" where
  "reader_end err x = (case err of None \<Rightarrow> Inr x | Some e \<Rightarrow> Inl e)"

section \<open>Dataset: save\<close>

text \<open>
  The file system is a map from file names to contents. \<^verbatim>\<open>gzip\<close> is transparent: the
  text written to a \<^verbatim>\<open>.gz\<close> name is the text read back from it. Opening for writing is
  taken to succeed.
\<close>

type_synonym files = "string \<rightharpoonup> string"

text \<open>The four keys of \<^verbatim>\<open>fnmap\<close>.\<close>

datatype kind = Unp | Conc | Disc | Bad_end

fun lab_of :: "kind \<Rightarrow> string" where
  "lab_of Unp = ''_unp''"
| "lab_of Conc = ''_conc''"
| "lab_of Disc = ''_disc''"
| "lab_of Bad_end = ''_bad_end''"

fun is_paired :: "kind \<Rightarrow> bool" where
  "is_paired Unp = False"
| "is_paired Conc = True"
| "is_paired Disc = True"
| "is_paired Bad_end = False"

definition paired_header :: "string list" where
  "paired_header =
     [''name1'', ''best1'', ''secbest1'', ''minv1'', ''maxv1'', ''len1'', ''mapq1'',
      ''name2'', ''best2'', ''secbest2'', ''minv2'', ''maxv2'', ''len2'', ''mapq2'',
      ''bestconc'', ''secbestconc'', ''fraglen'', ''correct'']"

definition unpaired_header :: "string list" where
  "unpaired_header =
     [''name'', ''best'', ''secbest'', ''minv'', ''maxv'', ''len'', ''mapq'', ''olen'',
      ''correct'']"

fun correct_str :: "bool option \<Rightarrow> string" where
  "correct_str None = ''NA''"
| "correct_str (Some c) = (if c then ''T'' else ''F'')"

definition field_str :: "pyval \<Rightarrow> string" where
  "field_str x = (if x = PNone then ''NA'' else py_str x)"

text \<open>The tokens of one data row: the mapped field sequence with the label appended.\<close>

definition row_tokens :: "pyval list \<Rightarrow> bool option \<Rightarrow> string list" where
  "row_tokens tup correct = map field_str tup @ [correct_str correct]"

text \<open>\<^verbatim>\<open>izip(data, corrects)\<close> for the collection of a key, each record as its field sequence.\<close>

fun rows_of :: "Dataset \<Rightarrow> kind \<Rightarrow> (pyval list \<times> bool option) list" where
  "rows_of self Unp = zip (map UnpairedTuple_iter (data_unp self)) (lab_unp self)"
| "rows_of self Conc = zip (map PairedTuple_iter (data_conc self)) (lab_conc self)"
| "rows_of self Disc = zip (map PairedTuple_iter (data_disc self)) (lab_disc self)"
| "rows_of self Bad_end = zip (map UnpairedTuple_iter (data_bad_end self)) (lab_bad_end self)"

definition file_text :: "Dataset \<Rightarrow> kind \<Rightarrow> string" where
  "file_text self k =
     join '','' (if is_paired k then paired_header else unpaired_header) @ [CHR 0x0A] @
     concat (map (\<lambda>(tup, correct). join '','' (row_tokens tup correct) @ [CHR 0x0A])
               (rows_of self k))"

definition file_name :: "string \<Rightarrow> kind \<Rightarrow> string" where
  "file_name fnprefix k = fnprefix @ lab_of k @ ''.csv''"

definition save_file :: "files \<Rightarrow> string \<Rightarrow> bool \<Rightarrow> Dataset \<Rightarrow> kind \<Rightarrow> files" where
  "save_file fs fnprefix compress self k =
     (let fn = file_name fnprefix k
      in fs((if compress then fn @ ''.gz'' else fn) \<mapsto> file_text self k))"

text \<open>
  \<^verbatim>\<open>fnmap.iteritems()\<close> enumerates the four keys in an order the language does not fix:
  the order is the parameter \<open>ks\<close>, and \<open>save\<close> and \<open>load\<close> take the order of the
  dictionary display.
\<close>

fun save_in :: "kind list \<Rightarrow> files \<Rightarrow> string \<Rightarrow> bool \<Rightarrow> Dataset \<Rightarrow> files" where
  "save_in [] fs fnprefix compress self = fs"
| "save_in (k # ks) fs fnprefix compress self =
     save_in ks (save_file fs fnprefix compress self k) fnprefix compress self"

definition save :: "files \<Rightarrow> string \<Rightarrow> bool \<Rightarrow> Dataset \<Rightarrow> files" where
  "save = save_in [Unp, Conc, Disc, Bad_end]"

section \<open>Dataset: load\<close>

definition int_or_none :: "string \<Rightarrow> error + pyval" where
  "int_or_none s =
     (if s = ''NA'' then Inr PNone
      else case py_int s of Inl e \<Rightarrow> Inl e | Inr i \<Rightarrow> Inr (PInt i))"

text \<open>\<^verbatim>\<open>map(int_or_none, toks)\<close>: the first token that fails raises.\<close>

fun map_int_or_none :: "string list \<Rightarrow> error + pyval list" where
  "map_int_or_none [] = Inr []"
| "map_int_or_none (t # ts) =
     (case int_or_none t of
        Inl e \<Rightarrow> Inl e
      | Inr v \<Rightarrow> (case map_int_or_none ts of Inl e \<Rightarrow> Inl e | Inr vs \<Rightarrow> Inr (v # vs)))"

text \<open>
  The body of the paired loop after the width assertion and the header test. Unpacking a
  list of the wrong length is a \<^verbatim>\<open>ValueError\<close>. \<^verbatim>\<open>toks[-1]\<close> is \<open>last toks\<close>: the row is
  not empty there.
\<close>

definition read_paired_row :: "string list \<Rightarrow> error + PairedTuple \<times> bool" where
  "read_paired_row toks =
     (case map_int_or_none (take 7 toks) of
        Inl e \<Rightarrow> Inl e
      | Inr [rdname1', best1, secbest1, minv1', maxv1', ln1, mapq1'] \<Rightarrow>
          (case map_int_or_none (take 7 (drop 7 toks)) of
             Inl e \<Rightarrow> Inl e
           | Inr [rdname2', best2, secbest2, minv2', maxv2', ln2, mapq2'] \<Rightarrow>
               (case map_int_or_none (take 3 (drop 14 toks)) of
                  Inl e \<Rightarrow> Inl e
                | Inr [bestconc, secbestconc, fraglen'] \<Rightarrow>
                    (case PairedTuple_init rdname1' ln1 minv1' maxv1' best1 secbest1 mapq1'
                            rdname2' ln2 minv2' maxv2' best2 secbest2 mapq2'
                            bestconc secbestconc fraglen' of
                       Inl e \<Rightarrow> Inl e
                     | Inr r \<Rightarrow> Inr (r, last toks = ''T''))
                | Inr _ \<Rightarrow> Inl ValueError)
           | Inr _ \<Rightarrow> Inl ValueError)
      | Inr _ \<Rightarrow> Inl ValueError)"

definition read_unpaired_row :: "string list \<Rightarrow> error + UnpairedTuple \<times> bool" where
  "read_unpaired_row toks =
     (case map_int_or_none (take 8 toks) of
        Inl e \<Rightarrow> Inl e
      | Inr [rdname', best, secbest, minv', maxv', ln, mapq', oln] \<Rightarrow>
          (case UnpairedTuple_init rdname' ln minv' maxv' best secbest mapq' oln of
             Inl e \<Rightarrow> Inl e
           | Inr r \<Rightarrow> Inr (r, last toks = ''T''))
      | Inr _ \<Rightarrow> Inl ValueError)"

text \<open>
  The two loops over the rows of a file. The lists are the collection's own: each accepted
  row is appended to what is already there. The width is asserted on every row, the
  header included, before the header test.
\<close>

fun load_paired_rows ::
  "string list list \<Rightarrow> PairedTuple list \<Rightarrow> bool option list
     \<Rightarrow> error + PairedTuple list \<times> bool option list" where
  "load_paired_rows [] data corrects = Inr (data, corrects)"
| "load_paired_rows (toks # rest) data corrects =
     (if 18 \<noteq> length toks then Inl AssertionError
      else if ''name1'' = hd toks then load_paired_rows rest data corrects
      else case read_paired_row toks of
             Inl e \<Rightarrow> Inl e
           | Inr (r, c) \<Rightarrow> load_paired_rows rest (data @ [r]) (corrects @ [Some c]))"

fun load_unpaired_rows ::
  "string list list \<Rightarrow> UnpairedTuple list \<Rightarrow> bool option list
     \<Rightarrow> error + UnpairedTuple list \<times> bool option list" where
  "load_unpaired_rows [] data corrects = Inr (data, corrects)"
| "load_unpaired_rows (toks # rest) data corrects =
     (if 8 \<noteq> length toks then Inl AssertionError
      else if ''name'' = hd toks then load_unpaired_rows rest data corrects
      else case read_unpaired_row toks of
             Inl e \<Rightarrow> Inl e
           | Inr (r, c) \<Rightarrow> load_unpaired_rows rest (data @ [r]) (corrects @ [Some c]))"

text \<open>The \<^verbatim>\<open>.gz\<close> name is probed first; a missing file is an \<^verbatim>\<open>IOError\<close>.\<close>

definition open_for_load :: "files \<Rightarrow> string \<Rightarrow> error + string" where
  "open_for_load fs fn =
     (case fs (fn @ ''.gz'') of
        Some text0 \<Rightarrow> Inr text0
      | None \<Rightarrow> (case fs fn of Some text0 \<Rightarrow> Inr text0 | None \<Rightarrow> Inl IOError))"

definition load_file :: "files \<Rightarrow> string \<Rightarrow> Dataset \<Rightarrow> kind \<Rightarrow> error + Dataset" where
  "load_file fs fnprefix self k =
     (case open_for_load fs (file_name fnprefix k) of
        Inl e \<Rightarrow> Inl e
      | Inr text0 \<Rightarrow>
          (case csv_reader text0 of
             (rows, err) \<Rightarrow>
               (case k of
                  Unp \<Rightarrow>
                    (case load_unpaired_rows rows (data_unp self) (lab_unp self) of
                       Inl e \<Rightarrow> Inl e
                     | Inr (d, l) \<Rightarrow> reader_end err (self\<lparr>data_unp := d, lab_unp := l\<rparr>))
                | Conc \<Rightarrow>
                    (case load_paired_rows rows (data_conc self) (lab_conc self) of
                       Inl e \<Rightarrow> Inl e
                     | Inr (d, l) \<Rightarrow> reader_end err (self\<lparr>data_conc := d, lab_conc := l\<rparr>))
                | Disc \<Rightarrow>
                    (case load_paired_rows rows (data_disc self) (lab_disc self) of
                       Inl e \<Rightarrow> Inl e
                     | Inr (d, l) \<Rightarrow> reader_end err (self\<lparr>data_disc := d, lab_disc := l\<rparr>))
                | Bad_end \<Rightarrow>
                    (case load_unpaired_rows rows (data_bad_end self) (lab_bad_end self) of
                       Inl e \<Rightarrow> Inl e
                     | Inr (d, l) \<Rightarrow>
                         reader_end err (self\<lparr>data_bad_end := d, lab_bad_end := l\<rparr>)))))"

fun load_in :: "kind list \<Rightarrow> files \<Rightarrow> string \<Rightarrow> Dataset \<Rightarrow> error + Dataset" where
  "load_in [] fs fnprefix self = Inr self"
| "load_in (k # ks) fs fnprefix self =
     (case load_file fs fnprefix self k of
        Inl e \<Rightarrow> Inl e
      | Inr self' \<Rightarrow> load_in ks fs fnprefix self')"

definition load :: "files \<Rightarrow> string \<Rightarrow> Dataset \<Rightarrow> error + Dataset" where
  "load = load_in [Unp, Conc, Disc, Bad_end]"

section \<open>Tabular export\<close>

text \<open>
  \<^verbatim>\<open>pandas.DataFrame\<close> is outside the module. A table is the ordered list of named columns
  that \<^verbatim>\<open>DataFrame.from_items\<close> is given, with the column that \<^verbatim>\<open>df['correct'] = cor\<close>
  adds at the end; the checks pandas makes on its own are not part of it.
\<close>

datatype column = Fields "pyval list" | Labels "bool option list"

type_synonym DataFrame = "(string \<times> column) list"

text \<open>
  \<^verbatim>\<open>UnpairedTuple.to_data_frame\<close>: the list handed to \<^verbatim>\<open>from_items\<close> is written
  \<^verbatim>\<open>[('name', names) ('best1', best1), ...]\<close>, without a comma after the first pair, so
  the first pair is called with the second as its argument: a \<^verbatim>\<open>TypeError\<close>, whatever the
  arguments are.
\<close>

definition UnpairedTuple_to_data_frame ::
  "UnpairedTuple list \<Rightarrow> bool option list option \<Rightarrow> error + DataFrame" where
  "UnpairedTuple_to_data_frame ptups cor = Inl TypeError"

text \<open>\<^verbatim>\<open>PairedTuple.columnize\<close>: the seventeen columns, in the order they are returned.\<close>

definition columnize :: "PairedTuple list \<Rightarrow> pyval list list" where
  "columnize ptups =
     [map rdname1 ptups, map bestsc1 ptups, map best2sc1 ptups, map minv1 ptups,
      map maxv1 ptups, map rdlen1 ptups, map mapq1 ptups,
      map rdname2 ptups, map bestsc2 ptups, map best2sc2 ptups, map minv2 ptups,
      map maxv2 ptups, map rdlen2 ptups, map mapq2 ptups,
      map bestconcsc ptups, map best2concsc ptups, map fraglen ptups]"

definition paired_column_names :: "string list" where
  "paired_column_names =
     [''name_1'', ''best1_1'', ''best2_1'', ''minv_1'', ''maxv_1'', ''rdlen_1'', ''mapq_1'',
      ''name_2'', ''best1_2'', ''best2_2'', ''minv_2'', ''maxv_2'', ''rdlen_2'', ''mapq_2'',
      ''best1conc'', ''best2conc'', ''fraglen'']"

text \<open>\<^verbatim>\<open>PairedTuple.to_data_frames(cls, ptups, cor=None)\<close>.\<close>

definition PairedTuple_to_data_frames ::
  "PairedTuple list \<Rightarrow> bool option list option \<Rightarrow> DataFrame" where
  "PairedTuple_to_data_frames ptups cor =
     (let df = zip paired_column_names (map Fields (columnize ptups))
      in case cor of None \<Rightarrow> df | Some c \<Rightarrow> df @ [(''correct'', Labels c)])"

text \<open>
  \<^verbatim>\<open>Dataset.to_data_frames\<close>: the four elements of the tuple are evaluated from left to
  right. The last one calls \<^verbatim>\<open>UnpairedTuple.to_data_frames\<close>, a name the class does not
  have: an \<^verbatim>\<open>AttributeError\<close>.
\<close>

definition to_data_frames ::
  "Dataset \<Rightarrow> error + DataFrame \<times> DataFrame \<times> DataFrame \<times> DataFrame" where
  "to_data_frames self =
     (case UnpairedTuple_to_data_frame (data_unp self) (Some (lab_unp self)) of
        Inl e \<Rightarrow> Inl e
      | Inr unp \<Rightarrow>
          (let conc = PairedTuple_to_data_frames (data_conc self) (Some (lab_conc self));
               disc = PairedTuple_to_data_frames (data_disc self) (Some (lab_disc self))
           in Inl AttributeError))"

section \<open>The specification's words\<close>

text \<open>
  The score bounds of one mate as the specification has them: absent, or a minimum and a
  maximum. \<open>score_bounds_hold\<close> is its invariant \<open>min \<le> best \<le> max\<close>, with nothing
  to check when the bounds are absent.
\<close>

definition score_bounds_hold :: "(int \<times> int) option \<Rightarrow> int \<Rightarrow> bool" where
  "score_bounds_hold bounds best =
     (case bounds of None \<Rightarrow> True | Some (mn, mx) \<Rightarrow> mn \<le> best \<and> best \<le> mx)"

fun min_of :: "(int \<times> int) option \<Rightarrow> pyval" where
  "min_of None = PNone"
| "min_of (Some (mn, mx)) = PInt mn"

fun max_of :: "(int \<times> int) option \<Rightarrow> pyval" where
  "max_of None = PNone"
| "max_of (Some (mn, mx)) = PInt mx"

text \<open>
  The widened second-best score: the reported second-best, or the larger of it and the
  third-best when a third-best is reported.
\<close>

fun widened :: "int option \<Rightarrow> int option \<Rightarrow> pyval" where
  "widened second None = of_opt second"
| "widened None (Some third) = PInt third"
| "widened (Some second) (Some third) = PInt (max second third)"

text \<open>Both mates expose both concordant scores.\<close>

definition both_expose :: "Alignment \<Rightarrow> Alignment \<Rightarrow> bool" where
  "both_expose al1 al2 =
     (bestConcordantScore al1 \<noteq> None \<and> secondBestConcordantScore al1 \<noteq> None \<and>
      bestConcordantScore al2 \<noteq> None \<and> secondBestConcordantScore al2 \<noteq> None)"

text \<open>
  The rows parsed from the file of a key: the loop of \<open>load\<close> started on empty lists.
\<close>

definition parse_unpaired_file ::
  "files \<Rightarrow> string \<Rightarrow> kind \<Rightarrow> error + UnpairedTuple list \<times> bool option list" where
  "parse_unpaired_file fs fnprefix k =
     (case open_for_load fs (file_name fnprefix k) of
        Inl e \<Rightarrow> Inl e
      | Inr text0 \<Rightarrow>
          (case csv_reader text0 of
             (rows, err) \<Rightarrow>
               (case load_unpaired_rows rows [] [] of
                  Inl e \<Rightarrow> Inl e
                | Inr x \<Rightarrow> reader_end err x)))"

definition parse_paired_file ::
  "files \<Rightarrow> string \<Rightarrow> kind \<Rightarrow> error + PairedTuple list \<times> bool option list" where
  "parse_paired_file fs fnprefix k =
     (case open_for_load fs (file_name fnprefix k) of
        Inl e \<Rightarrow> Inl e
      | Inr text0 \<Rightarrow>
          (case csv_reader text0 of
             (rows, err) \<Rightarrow>
               (case load_paired_rows rows [] [] of
                  Inl e \<Rightarrow> Inl e
                | Inr x \<Rightarrow> reader_end err x)))"

text \<open>
  The collection of a key followed by the rows parsed from its file; \<open>parses\<close> says
  that the file is there and that every row of it is accepted.
\<close>

fun appended :: "files \<Rightarrow> string \<Rightarrow> kind \<Rightarrow> Dataset \<Rightarrow> Dataset" where
  "appended fs fnprefix Unp self =
     (case parse_unpaired_file fs fnprefix Unp of
        Inl e \<Rightarrow> self
      | Inr (d, l) \<Rightarrow> self\<lparr>data_unp := data_unp self @ d, lab_unp := lab_unp self @ l\<rparr>)"
| "appended fs fnprefix Conc self =
     (case parse_paired_file fs fnprefix Conc of
        Inl e \<Rightarrow> self
      | Inr (d, l) \<Rightarrow> self\<lparr>data_conc := data_conc self @ d, lab_conc := lab_conc self @ l\<rparr>)"
| "appended fs fnprefix Disc self =
     (case parse_paired_file fs fnprefix Disc of
        Inl e \<Rightarrow> self
      | Inr (d, l) \<Rightarrow> self\<lparr>data_disc := data_disc self @ d, lab_disc := lab_disc self @ l\<rparr>)"
| "appended fs fnprefix Bad_end self =
     (case parse_unpaired_file fs fnprefix Bad_end of
        Inl e \<Rightarrow> self
      | Inr (d, l) \<Rightarrow>
          self\<lparr>data_bad_end := data_bad_end self @ d, lab_bad_end := lab_bad_end self @ l\<rparr>)"

fun parses :: "files \<Rightarrow> string \<Rightarrow> kind \<Rightarrow> bool" where
  "parses fs fnprefix Unp = (\<exists>x. parse_unpaired_file fs fnprefix Unp = Inr x)"
| "parses fs fnprefix Conc = (\<exists>x. parse_paired_file fs fnprefix Conc = Inr x)"
| "parses fs fnprefix Disc = (\<exists>x. parse_paired_file fs fnprefix Disc = Inr x)"
| "parses fs fnprefix Bad_end = (\<exists>x. parse_unpaired_file fs fnprefix Bad_end = Inr x)"

text \<open>The name \<open>save\<close> writes the file of a key under.\<close>

definition saved_name :: "string \<Rightarrow> bool \<Rightarrow> kind \<Rightarrow> string" where
  "saved_name fnprefix compress k =
     (if compress then file_name fnprefix k @ ''.gz'' else file_name fnprefix k)"

section \<open>Concrete inputs\<close>

definition ex_record :: UnpairedTuple where
  "ex_record =
     \<lparr>rdname = PStr ''r1'', rdlen = PInt 100, ordlen = PInt 75, minv = PInt 0,
      maxv = PInt 50, bestsc = PInt 42, best2sc = PInt 30, mapq = PInt 37\<rparr>"

text \<open>A mate that reports no third-best score and one that reports second-best 7, third-best 9.\<close>

definition ex_al1 :: Alignment where
  "ex_al1 =
     \<lparr>name = ''r1/1'', al_len = 100, bestScore = 42, secondBestScore = Some 30, al_mapq = 37,
      thirdBestScore = None, minValid = None, maxValid = None, bestConcordantScore = None,
      secondBestConcordantScore = None, concordant = True, discordant = False,
      paired = True\<rparr>"

definition ex_al2 :: Alignment where
  "ex_al2 =
     \<lparr>name = ''r1/2'', al_len = 90, bestScore = 40, secondBestScore = Some 7, al_mapq = 30,
      thirdBestScore = Some 9, minValid = None, maxValid = None, bestConcordantScore = None,
      secondBestConcordantScore = None, concordant = True, discordant = False,
      paired = True\<rparr>"

text \<open>A concordant pair that reports every optional attribute, and agrees on the pair's scores.\<close>

definition ex_mate1 :: Alignment where
  "ex_mate1 =
     \<lparr>name = ''r2/1'', al_len = 100, bestScore = 42, secondBestScore = Some 30, al_mapq = 37,
      thirdBestScore = Some 35, minValid = Some 0, maxValid = Some 50,
      bestConcordantScore = Some 80, secondBestConcordantScore = Some 60, concordant = True,
      discordant = False, paired = True\<rparr>"

definition ex_mate2 :: Alignment where
  "ex_mate2 =
     \<lparr>name = ''r2/2'', al_len = 90, bestScore = 40, secondBestScore = Some 7, al_mapq = 30,
      thirdBestScore = Some 9, minValid = Some 0, maxValid = Some 45,
      bestConcordantScore = Some 80, secondBestConcordantScore = Some 60, concordant = True,
      discordant = False, paired = True\<rparr>"

text \<open>The same second mate, reporting another best concordant score than its partner.\<close>

definition ex_mate2_disagreeing :: Alignment where
  "ex_mate2_disagreeing = ex_mate2\<lparr>bestConcordantScore := Some 81\<rparr>"

definition ex_fragment_length :: "Alignment \<Rightarrow> Alignment \<Rightarrow> pyval" where
  "ex_fragment_length al1 al2 = PInt 250"

definition ex_rec12 :: PairedTuple where
  "ex_rec12 =
     \<lparr>rdname1 = PStr ''r2/1'', rdname2 = PStr ''r2/2'', rdlen1 = PInt 100,
      rdlen2 = PInt 90, minv1 = PInt 0, minv2 = PInt 0, maxv1 = PInt 50, maxv2 = PInt 45,
      bestsc1 = PInt 42, bestsc2 = PInt 40, best2sc1 = PInt 35, best2sc2 = PInt 9,
      mapq1 = PInt 37, mapq2 = PInt 30, bestconcsc = PInt 80, best2concsc = PInt 60,
      fraglen = PInt 250\<rparr>"

definition ex_rec21 :: PairedTuple where
  "ex_rec21 =
     \<lparr>rdname1 = PStr ''r2/2'', rdname2 = PStr ''r2/1'', rdlen1 = PInt 90,
      rdlen2 = PInt 100, minv1 = PInt 0, minv2 = PInt 0, maxv1 = PInt 45, maxv2 = PInt 50,
      bestsc1 = PInt 40, bestsc2 = PInt 42, best2sc1 = PInt 9, best2sc2 = PInt 35,
      mapq1 = PInt 30, mapq2 = PInt 37, bestconcsc = PInt 80, best2concsc = PInt 60,
      fraglen = PInt 250\<rparr>"

text \<open>
  The record of the specification's example: name r1, best 42, second-best 30, bounds 0 and
  50, length 100, mapping quality 37, label true; and the dataset that holds it.
\<close>

definition ex_unpaired_al :: Alignment where
  "ex_unpaired_al =
     \<lparr>name = ''r1'', al_len = 100, bestScore = 42, secondBestScore = Some 30, al_mapq = 37,
      thirdBestScore = None, minValid = Some 0, maxValid = Some 50,
      bestConcordantScore = None, secondBestConcordantScore = None, concordant = False,
      discordant = False, paired = False\<rparr>"

definition ex_unpaired_rec :: UnpairedTuple where
  "ex_unpaired_rec =
     \<lparr>rdname = PStr ''r1'', rdlen = PInt 100, ordlen = PInt 0, minv = PInt 0,
      maxv = PInt 50, bestsc = PInt 42, best2sc = PInt 30, mapq = PInt 37\<rparr>"

definition ex_dataset :: Dataset where
  "ex_dataset = Dataset_init\<lparr>data_unp := [ex_unpaired_rec], lab_unp := [Some True]\<rparr>"

text \<open>
  A paired row of eighteen tokens, the same row without its label, and the record the
  first one loads as.
\<close>

definition ex_row18 :: "string list" where
  "ex_row18 =
     [''7'', ''41'', ''30'', ''NA'', ''NA'', ''100'', ''37'',
      ''8'', ''40'', ''-9'', ''0'', ''45'', ''90'', ''30'',
      ''NA'', ''NA'', ''250'', ''T'']"

definition ex_row17 :: "string list" where
  "ex_row17 = butlast ex_row18"

definition ex_paired_loaded :: PairedTuple where
  "ex_paired_loaded =
     \<lparr>rdname1 = PInt 7, rdname2 = PInt 8, rdlen1 = PInt 100, rdlen2 = PInt 90,
      minv1 = PNone, minv2 = PInt 0, maxv1 = PNone, maxv2 = PInt 45, bestsc1 = PInt 41,
      bestsc2 = PInt 40, best2sc1 = PInt 30, best2sc2 = PInt (- 9), mapq1 = PInt 37,
      mapq2 = PInt 30, bestconcsc = PNone, best2concsc = PNone, fraglen = PInt 250\<rparr>"

text \<open>
  A paired record without valid-score bounds, and an unpaired one as \<open>load\<close> builds it.
\<close>

definition ex_no_bounds :: PairedTuple where
  "ex_no_bounds =
     \<lparr>rdname1 = PStr ''r1/1'', rdname2 = PStr ''r1/2'', rdlen1 = PInt 100,
      rdlen2 = PInt 90, minv1 = PNone, minv2 = PNone, maxv1 = PNone, maxv2 = PNone,
      bestsc1 = PInt 42, bestsc2 = PInt 40, best2sc1 = PInt 30, best2sc2 = PInt 7,
      mapq1 = PInt 37, mapq2 = PInt 30, bestconcsc = PNone, best2concsc = PNone,
      fraglen = PInt 250\<rparr>"

definition ex_unpaired_loaded :: UnpairedTuple where
  "ex_unpaired_loaded =
     \<lparr>rdname = PInt 7, rdlen = PInt 100, ordlen = PInt 0, minv = PNone, maxv = PNone,
      bestsc = PInt 41, best2sc = PInt 30, mapq = PInt 37\<rparr>"

text \<open>
  Files whose concordant file holds a row of seventeen tokens; and files that
  \<open>load\<close> accepts: an unpaired row of eight tokens, a paired header and row of eighteen.
\<close>

definition ex_paired_files :: files where
  "ex_paired_files =
     [''p_unp.csv'' \<mapsto> [],
      ''p_conc.csv'' \<mapsto> ''7,41,30,NA,NA,100,37,8,40,-9,0,45,90,30,NA,NA,250'' @ [CHR 0x0A],
      ''p_disc.csv'' \<mapsto> [], ''p_bad_end.csv'' \<mapsto> []]"

definition ex_files :: files where
  "ex_files =
     [''p_unp.csv'' \<mapsto> ''7,41,30,NA,NA,100,37,0'' @ [CHR 0x0A],
      ''p_conc.csv'' \<mapsto>
        ''name1,best1,secbest1,minv1,maxv1,len1,mapq1,name2,best2,secbest2,minv2,maxv2,len2,mapq2,bestconc,secbestconc,fraglen,correct''
        @ [CHR 0x0A] @
        ''7,41,30,NA,NA,100,37,8,40,-9,0,45,90,30,NA,NA,250,T'' @ [CHR 0x0A],
      ''p_disc.csv'' \<mapsto> [],
      ''p_bad_end.csv'' \<mapsto> []]"

definition ex_loaded :: Dataset where
  "ex_loaded =
     \<lparr>data_unp = [ex_unpaired_rec, ex_unpaired_loaded], lab_unp = [Some True, Some False],
      data_conc = [ex_paired_loaded], lab_conc = [Some True], data_disc = [], lab_disc = [],
      data_bad_end = [], lab_bad_end = []\<rparr>"

text \<open>
  The dataset of one unpaired read whose alignment reports no valid-score bounds, as
  \<open>add_unpaired\<close> builds it from \<open>ex_al1\<close>.
\<close>

definition ex_na_rec :: UnpairedTuple where
  "ex_na_rec =
     \<lparr>rdname = PStr ''r1/1'', rdlen = PInt 100, ordlen = PInt 0, minv = PNone,
      maxv = PNone, bestsc = PInt 42, best2sc = PInt 30, mapq = PInt 37\<rparr>"

definition ex_na_dataset :: Dataset where
  "ex_na_dataset = Dataset_init\<lparr>data_unp := [ex_na_rec], lab_unp := [Some True]\<rparr>"

text \<open>
  A concordant pair of reads named 7 and 8 that reports no optional attribute, the
  dataset \<open>add_concordant\<close> builds from it, and the dataset its saved file loads as.
\<close>

definition ex_num1 :: Alignment where
  "ex_num1 = ex_al1\<lparr>name := ''7''\<rparr>"

definition ex_num2 :: Alignment where
  "ex_num2 =
     ex_al1\<lparr>name := ''8'', al_len := 90, bestScore := 40, secondBestScore := Some 7,
            al_mapq := 30\<rparr>"

definition ex_num_pair :: "pyval \<Rightarrow> pyval \<Rightarrow> PairedTuple list" where
  "ex_num_pair n7 n8 =
     [\<lparr>rdname1 = n7, rdname2 = n8, rdlen1 = PInt 100, rdlen2 = PInt 90, minv1 = PNone,
       minv2 = PNone, maxv1 = PNone, maxv2 = PNone, bestsc1 = PInt 42, bestsc2 = PInt 40,
       best2sc1 = PInt 30, best2sc2 = PInt 7, mapq1 = PInt 37, mapq2 = PInt 30,
       bestconcsc = PNone, best2concsc = PNone, fraglen = PInt 250\<rparr>,
      \<lparr>rdname1 = n8, rdname2 = n7, rdlen1 = PInt 90, rdlen2 = PInt 100, minv1 = PNone,
       minv2 = PNone, maxv1 = PNone, maxv2 = PNone, bestsc1 = PInt 40, bestsc2 = PInt 42,
       best2sc1 = PInt 7, best2sc2 = PInt 30, mapq1 = PInt 30, mapq2 = PInt 37,
       bestconcsc = PNone, best2concsc = PNone, fraglen = PInt 250\<rparr>]"

definition ex_num_dataset :: Dataset where
  "ex_num_dataset =
     Dataset_init\<lparr>data_conc := ex_num_pair (PStr ''7'') (PStr ''8''),
                   lab_conc := [Some True, Some False]\<rparr>"

definition ex_num_loaded :: Dataset where
  "ex_num_loaded =
     Dataset_init\<lparr>data_conc := ex_num_pair (PInt 7) (PInt 8),
                   lab_conc := [Some True, Some False]\<rparr>"

section \<open>The field sequence\<close>

text \<open>
  C2 (amended). The field sequence of an UnpairedTuple is, in this order: name, best score,
  second-best score, min valid score, max valid score, read length, mapping quality,
  opposite-end length. It is the order of the first eight names of the header that
  \<open>save\<close> writes, not the order of the constructor's arguments.
\<close>

theorem UnpairedTuple_iter_order:
  "UnpairedTuple_iter r =
     [rdname r, bestsc r, best2sc r, minv r, maxv r, rdlen r, mapq r, ordlen r] \<and>
   zip unpaired_header (UnpairedTuple_iter r) =
     [(''name'', rdname r), (''best'', bestsc r), (''secbest'', best2sc r),
      (''minv'', minv r), (''maxv'', maxv r), (''len'', rdlen r), (''mapq'', mapq r),
      (''olen'', ordlen r)]"
  by (simp add: UnpairedTuple_iter_def unpaired_header_def)

text \<open>
  The order the claim gives (name, read length, min, max, best, second-best, mapping
  quality, opposite-end length) is not the field sequence of the record
  name r1, length 100, bounds 0 and 50, best 42, second-best 30, quality 37, other end 75.
\<close>

theorem UnpairedTuple_iter_not_constructor_order:
  "UnpairedTuple_iter ex_record \<noteq>
     [rdname ex_record, rdlen ex_record, minv ex_record, maxv ex_record, bestsc ex_record,
      best2sc ex_record, mapq ex_record, ordlen ex_record]"
  by (simp add: UnpairedTuple_iter_def ex_record_def)

section \<open>The score-bound invariant at construction\<close>

lemma bounds_py_le:
  "(min_of bd = PNone \<or> (py_le (min_of bd) (PInt b) \<and> py_le (PInt b) (max_of bd)))
     = score_bounds_hold bd b"
  by (cases bd) (auto simp: score_bounds_hold_def)

text \<open>
  C4. Constructing an UnpairedTuple whose bounds are given and whose best score is outside
  them fails with an AssertionError; with the best score inside them, or with no bounds,
  it yields the record. A PairedTuple is the same for each mate on its own: it is built
  exactly when both mates pass.
\<close>

theorem init_score_bounds:
  "UnpairedTuple_init n l (min_of bd) (max_of bd) (PInt b) s q ol =
     (if score_bounds_hold bd b
      then Inr \<lparr>rdname = n, rdlen = l, ordlen = ol, minv = min_of bd, maxv = max_of bd,
                bestsc = PInt b, best2sc = s, mapq = q\<rparr>
      else Inl AssertionError) \<and>
   PairedTuple_init n1 l1 (min_of bd1) (max_of bd1) (PInt b1) s1 q1
       n2 l2 (min_of bd2) (max_of bd2) (PInt b2) s2 q2 bc sc fl =
     (if score_bounds_hold bd1 b1 \<and> score_bounds_hold bd2 b2
      then Inr \<lparr>rdname1 = n1, rdname2 = n2, rdlen1 = l1, rdlen2 = l2,
                minv1 = min_of bd1, minv2 = min_of bd2, maxv1 = max_of bd1,
                maxv2 = max_of bd2, bestsc1 = PInt b1, bestsc2 = PInt b2, best2sc1 = s1,
                best2sc2 = s2, mapq1 = q1, mapq2 = q2, bestconcsc = bc, best2concsc = sc,
                fraglen = fl\<rparr>
      else Inl AssertionError)"
  unfolding UnpairedTuple_init_def PairedTuple_init_def bounds_py_le by simp

text \<open>The specification's example: bounds 5 and 10 reject best 12, and accept best 7.\<close>

theorem init_score_bounds_witness:
  "UnpairedTuple_init (PStr ''r1'') (PInt 100) (PInt 5) (PInt 10) (PInt 12) (PInt 3) (PInt 37)
     (PInt 0) = Inl AssertionError \<and>
   UnpairedTuple_init (PStr ''r1'') (PInt 100) (PInt 5) (PInt 10) (PInt 7) (PInt 3) (PInt 37)
     (PInt 0) =
     Inr \<lparr>rdname = PStr ''r1'', rdlen = PInt 100, ordlen = PInt 0, minv = PInt 5,
          maxv = PInt 10, bestsc = PInt 7, best2sc = PInt 3, mapq = PInt 37\<rparr>"
  using init_score_bounds [of "PStr ''r1''" "PInt 100" "Some (5, 10)" 12 "PInt 3" "PInt 37"
      "PInt 0"]
    init_score_bounds [of "PStr ''r1''" "PInt 100" "Some (5, 10)" 7 "PInt 3" "PInt 37" "PInt 0"]
  by (simp add: score_bounds_hold_def)

section \<open>Records derived from alignments\<close>

lemma py_max_widened:
  "(case t of None \<Rightarrow> of_opt s | Some third \<Rightarrow> py_max (of_opt s) (PInt third)) = widened s t"
  by (cases s; cases t) (auto simp: py_max_def)

lemma UnpairedTuple_init_best2sc:
  "UnpairedTuple_init n l mn mx b s q ol = Inr r \<Longrightarrow> best2sc r = s"
  by (auto simp: UnpairedTuple_init_def split: if_splits)

lemma from_alignment_best2sc:
  "from_alignment al ol = Inr r \<Longrightarrow> best2sc r = widened (secondBestScore al) (thirdBestScore al)"
  unfolding from_alignment_def Let_def py_max_widened
  by (auto split: option.splits dest: UnpairedTuple_init_best2sc)

lemma PairedTuple_init_fields:
  "PairedTuple_init n1 l1 mn1 mx1 b1 s1 q1 n2 l2 mn2 mx2 b2 s2 q2 bc sc fl = Inr p \<Longrightarrow>
     p = \<lparr>rdname1 = n1, rdname2 = n2, rdlen1 = l1, rdlen2 = l2, minv1 = mn1,
          minv2 = mn2, maxv1 = mx1, maxv2 = mx2, bestsc1 = b1, bestsc2 = b2,
          best2sc1 = s1, best2sc2 = s2, mapq1 = q1, mapq2 = q2, bestconcsc = bc,
          best2concsc = sc, fraglen = fl\<rparr>"
  by (auto simp: PairedTuple_init_def split: if_splits)

text \<open>A record that \<open>from_alignments\<close> returns went through each of its four steps.\<close>

lemma from_alignments_Inr:
  assumes "from_alignments fl al1 al2 = Inr p"
  obtains s1 s2 mn1 mn2 mx1 mx2 bc sc where
    "second_best_pair al1 al2 = Inr (s1, s2)"
    "valid_bounds_pair al1 al2 = Inr ((mn1, mn2), (mx1, mx2))"
    "concordant_scores al1 al2 = Inr (bc, sc)"
    "p = \<lparr>rdname1 = PStr (name al1), rdname2 = PStr (name al2),
          rdlen1 = PInt (int (al_len al1)), rdlen2 = PInt (int (al_len al2)), minv1 = mn1,
          minv2 = mn2, maxv1 = mx1, maxv2 = mx2, bestsc1 = PInt (bestScore al1),
          bestsc2 = PInt (bestScore al2), best2sc1 = s1, best2sc2 = s2,
          mapq1 = PInt (al_mapq al1), mapq2 = PInt (al_mapq al2), bestconcsc = bc,
          best2concsc = sc, fraglen = fl al1 al2\<rparr>"
  using assms unfolding from_alignments_def
  by (auto split: sum.splits prod.splits dest!: PairedTuple_init_fields)

lemma second_best_pair_Inr:
  "second_best_pair al1 al2 = Inr (s1, s2) \<Longrightarrow>
     s1 = widened (secondBestScore al1) (thirdBestScore al1) \<and>
     s2 = widened (secondBestScore al2)
            (if thirdBestScore al1 = None then None else thirdBestScore al2) \<and>
     (thirdBestScore al1 \<noteq> None \<longrightarrow> thirdBestScore al2 \<noteq> None)"
  unfolding second_best_pair_def Let_def
  by (auto split: option.splits simp: py_max_widened [symmetric])

lemma second_best_pair_error: "second_best_pair al1 al2 = Inl e \<Longrightarrow> e = AssertionError"
  unfolding second_best_pair_def Let_def by (auto split: option.splits)

lemma second_best_pair_missing:
  "thirdBestScore al1 \<noteq> None \<Longrightarrow> thirdBestScore al2 = None \<Longrightarrow>
     second_best_pair al1 al2 = Inl AssertionError"
  unfolding second_best_pair_def Let_def by (auto split: option.splits)

lemma valid_bounds_pair_Inr:
  "valid_bounds_pair al1 al2 = Inr ((mn1, mn2), (mx1, mx2)) \<Longrightarrow>
     mn1 = of_opt (minValid al1) \<and>
     mx1 = (if minValid al1 = None then PNone else of_opt (maxValid al1))"
  unfolding valid_bounds_pair_def by (auto split: option.splits)

lemma ex_from_alignments_al2_al1:
  "from_alignments ex_fragment_length ex_al2 ex_al1 = Inl AssertionError"
  by (simp add: from_alignments_def second_best_pair_def ex_al1_def ex_al2_def)

lemma ex_from_alignment:
  "from_alignment ex_al2 (PInt 0) =
     Inr \<lparr>rdname = PStr ''r1/2'', rdlen = PInt 90, ordlen = PInt 0, minv = PNone,
          maxv = PNone, bestsc = PInt 40, best2sc = PInt 9, mapq = PInt 30\<rparr>"
  by (simp add: from_alignment_def ex_al2_def UnpairedTuple_init_def py_max_def)

lemma ex_from_alignments_al1_al2:
  "from_alignments ex_fragment_length ex_al1 ex_al2 =
     Inr \<lparr>rdname1 = PStr ''r1/1'', rdname2 = PStr ''r1/2'', rdlen1 = PInt 100,
          rdlen2 = PInt 90, minv1 = PNone, minv2 = PNone, maxv1 = PNone, maxv2 = PNone,
          bestsc1 = PInt 42, bestsc2 = PInt 40, best2sc1 = PInt 30, best2sc2 = PInt 7,
          mapq1 = PInt 37, mapq2 = PInt 30, bestconcsc = PNone, best2concsc = PNone,
          fraglen = PInt 250\<rparr>"
  by (simp add: from_alignments_def second_best_pair_def valid_bounds_pair_def
      concordant_scores_def PairedTuple_init_def ex_al1_def ex_al2_def ex_fragment_length_def)

lemma ex_from_alignments_mates:
  "from_alignments ex_fragment_length ex_mate1 ex_mate2 = Inr ex_rec12"
  "from_alignments ex_fragment_length ex_mate2 ex_mate1 = Inr ex_rec21"
  by (simp_all add: from_alignments_def second_best_pair_def valid_bounds_pair_def
      concordant_scores_def PairedTuple_init_def ex_mate1_def ex_mate2_def
      ex_fragment_length_def ex_rec12_def ex_rec21_def py_max_def)

text \<open>
  C5 (amended). The record that \<open>from_alignment\<close> derives has as its second-best score the
  maximum of the alignment's second-best and, when it reports one, third-best score.
  In \<open>from_alignments\<close> the presence of a third-best score is decided on mate 1 alone:
  when mate 1 reports one, mate 2 reports one too and both mates are widened; when mate 1
  reports none, neither mate is widened, whatever mate 2 reports. When mate 1 reports one
  and mate 2 none, the call fails with an AssertionError.
\<close>

theorem second_best_widening:
  "(from_alignment al ol = Inr r \<longrightarrow>
      best2sc r = widened (secondBestScore al) (thirdBestScore al)) \<and>
   (from_alignments fl al1 al2 = Inr p \<longrightarrow>
      best2sc1 p = widened (secondBestScore al1) (thirdBestScore al1) \<and>
      best2sc2 p = widened (secondBestScore al2)
                     (if thirdBestScore al1 = None then None else thirdBestScore al2) \<and>
      (thirdBestScore al1 \<noteq> None \<longrightarrow> thirdBestScore al2 \<noteq> None)) \<and>
   (thirdBestScore al1 \<noteq> None \<and> thirdBestScore al2 = None \<longrightarrow>
      from_alignments fl al1 al2 = Inl AssertionError)"
proof (intro conjI impI)
  assume "thirdBestScore al1 \<noteq> None \<and> thirdBestScore al2 = None"
  then have "second_best_pair al1 al2 = Inl AssertionError"
    by (simp add: second_best_pair_missing)
  then show "from_alignments fl al1 al2 = Inl AssertionError"
    by (simp add: from_alignments_def)
next
  assume "from_alignment al ol = Inr r"
  then show "best2sc r = widened (secondBestScore al) (thirdBestScore al)"
    by (rule from_alignment_best2sc)
next
  assume a: "from_alignments fl al1 al2 = Inr p"
  from a obtain s1 s2 where sb: "second_best_pair al1 al2 = Inr (s1, s2)"
    and p: "best2sc1 p = s1" "best2sc2 p = s2"
    by (rule from_alignments_Inr) simp
  from second_best_pair_Inr [OF sb] p
  show "best2sc1 p = widened (secondBestScore al1) (thirdBestScore al1)"
    and "best2sc2 p = widened (secondBestScore al2)
                     (if thirdBestScore al1 = None then None else thirdBestScore al2)"
    and "thirdBestScore al1 \<noteq> None \<Longrightarrow> thirdBestScore al2 \<noteq> None"
    by simp_all
qed

text \<open>
  Second-best 7 and third-best 9 give 9 in \<open>from_alignment\<close>; as mate 2 of a mate 1
  without a third-best score the same alignment keeps 7; as mate 1 of a mate 2 without one
  it gives no record.
\<close>

theorem second_best_widening_witness:
  "from_alignment ex_al2 (PInt 0) =
     Inr \<lparr>rdname = PStr ''r1/2'', rdlen = PInt 90, ordlen = PInt 0, minv = PNone,
          maxv = PNone, bestsc = PInt 40, best2sc = PInt 9, mapq = PInt 30\<rparr> \<and>
   best2sc \<lparr>rdname = PStr ''r1/2'', rdlen = PInt 90, ordlen = PInt 0, minv = PNone,
          maxv = PNone, bestsc = PInt 40, best2sc = PInt 9, mapq = PInt 30\<rparr> =
     widened (Some 7) (Some 9) \<and>
   best2sc2 \<lparr>rdname1 = PStr ''r1/1'', rdname2 = PStr ''r1/2'', rdlen1 = PInt 100,
          rdlen2 = PInt 90, minv1 = PNone, minv2 = PNone, maxv1 = PNone, maxv2 = PNone,
          bestsc1 = PInt 42, bestsc2 = PInt 40, best2sc1 = PInt 30, best2sc2 = PInt 7,
          mapq1 = PInt 37, mapq2 = PInt 30, bestconcsc = PNone, best2concsc = PNone,
          fraglen = PInt 250\<rparr> = widened (Some 7) None \<and>
   thirdBestScore ex_al2 \<noteq> None \<and> thirdBestScore ex_al1 = None \<and>
   from_alignments ex_fragment_length ex_al2 ex_al1 = Inl AssertionError"
  using second_best_widening [of ex_al2 "PInt 0" _ ex_fragment_length ex_al1 ex_al2]
    second_best_widening [of ex_al2 "PInt 0" _ ex_fragment_length ex_al2 ex_al1]
    ex_from_alignment ex_from_alignments_al1_al2
  by (simp add: ex_al1_def ex_al2_def)

text \<open>
  The claim fails for mate 2 of \<open>from_alignments\<close>: with a mate 1 that reports no
  third-best score, a mate 2 reporting second-best 7 and third-best 9 gets 7, not 9.
\<close>

theorem from_alignments_mate2_not_widened:
  "from_alignments ex_fragment_length ex_al1 ex_al2 =
     Inr \<lparr>rdname1 = PStr ''r1/1'', rdname2 = PStr ''r1/2'', rdlen1 = PInt 100,
          rdlen2 = PInt 90, minv1 = PNone, minv2 = PNone, maxv1 = PNone, maxv2 = PNone,
          bestsc1 = PInt 42, bestsc2 = PInt 40, best2sc1 = PInt 30, best2sc2 = PInt 7,
          mapq1 = PInt 37, mapq2 = PInt 30, bestconcsc = PNone, best2concsc = PNone,
          fraglen = PInt 250\<rparr> \<and>
   secondBestScore ex_al2 = Some 7 \<and> thirdBestScore ex_al2 = Some 9 \<and>
   PInt 7 \<noteq> widened (Some 7) (Some 9)"
  using ex_from_alignments_al1_al2 by (simp add: ex_al2_def)

lemma from_alignments_mate1:
  assumes "from_alignments fl al1 al2 = Inr p"
  shows "rdname1 p = PStr (name al1) \<and> rdlen1 p = PInt (int (al_len al1)) \<and>
         bestsc1 p = PInt (bestScore al1) \<and> mapq1 p = PInt (al_mapq al1) \<and>
         best2sc1 p = widened (secondBestScore al1) (thirdBestScore al1) \<and>
         minv1 p = of_opt (minValid al1) \<and>
         maxv1 p = (if minValid al1 = None then PNone else of_opt (maxValid al1))"
proof -
  from assms obtain s1 s2 mn1 mn2 mx1 mx2 bc sc where
    sb: "second_best_pair al1 al2 = Inr (s1, s2)" and
    vb: "valid_bounds_pair al1 al2 = Inr ((mn1, mn2), (mx1, mx2))" and
    p: "p = \<lparr>rdname1 = PStr (name al1), rdname2 = PStr (name al2),
          rdlen1 = PInt (int (al_len al1)), rdlen2 = PInt (int (al_len al2)), minv1 = mn1,
          minv2 = mn2, maxv1 = mx1, maxv2 = mx2, bestsc1 = PInt (bestScore al1),
          bestsc2 = PInt (bestScore al2), best2sc1 = s1, best2sc2 = s2,
          mapq1 = PInt (al_mapq al1), mapq2 = PInt (al_mapq al2), bestconcsc = bc,
          best2concsc = sc, fraglen = fl al1 al2\<rparr>"
    by (rule from_alignments_Inr)
  from second_best_pair_Inr [OF sb] valid_bounds_pair_Inr [OF vb] p
  show ?thesis by simp
qed

text \<open>
  C6 (amended). For concordant alignments \<open>al1\<close>, \<open>al2\<close> from which both
  \<open>from_alignments al1 al2\<close> and \<open>from_alignments al2 al1\<close> return a record,
  \<open>add_concordant\<close> appends to the concordant collection exactly these two records, in
  this order, and the two labels in theirs. The mate-1 fields of the first are \<open>al1\<close>'s
  data and those of the second are \<open>al2\<close>'s: name, length, best score, widened
  second-best score, mapping quality, min valid score, and the max valid score when the
  alignment reports a min valid score (absent otherwise). When either derivation fails,
  \<open>add_concordant\<close> fails with its error and appends nothing.
\<close>

theorem add_concordant_appends_pair:
  assumes "concordant al1" and "concordant al2"
  shows "(from_alignments fl al1 al2 = Inr rec1 \<and> from_alignments fl al2 al1 = Inr rec2 \<longrightarrow>
           add_concordant fl self al1 al2 correct1 correct2 =
             Inr (self\<lparr>data_conc := data_conc self @ [rec1, rec2],
                       lab_conc := lab_conc self @ [correct1, correct2]\<rparr>) \<and>
           rdname1 rec1 = PStr (name al1) \<and> rdlen1 rec1 = PInt (int (al_len al1)) \<and>
           bestsc1 rec1 = PInt (bestScore al1) \<and> mapq1 rec1 = PInt (al_mapq al1) \<and>
           best2sc1 rec1 = widened (secondBestScore al1) (thirdBestScore al1) \<and>
           minv1 rec1 = of_opt (minValid al1) \<and>
           maxv1 rec1 = (if minValid al1 = None then PNone else of_opt (maxValid al1)) \<and>
           rdname1 rec2 = PStr (name al2) \<and> rdlen1 rec2 = PInt (int (al_len al2)) \<and>
           bestsc1 rec2 = PInt (bestScore al2) \<and> mapq1 rec2 = PInt (al_mapq al2) \<and>
           best2sc1 rec2 = widened (secondBestScore al2) (thirdBestScore al2) \<and>
           minv1 rec2 = of_opt (minValid al2) \<and>
           maxv1 rec2 = (if minValid al2 = None then PNone else of_opt (maxValid al2))) \<and>
         (from_alignments fl al1 al2 = Inl e \<longrightarrow>
           add_concordant fl self al1 al2 correct1 correct2 = Inl e) \<and>
         (from_alignments fl al1 al2 = Inr rec1 \<and> from_alignments fl al2 al1 = Inl e \<longrightarrow>
           add_concordant fl self al1 al2 correct1 correct2 = Inl e)"
proof (intro conjI impI)
  assume a: "from_alignments fl al1 al2 = Inr rec1 \<and> from_alignments fl al2 al1 = Inr rec2"
  then have r1: "from_alignments fl al1 al2 = Inr rec1"
    and r2: "from_alignments fl al2 al1 = Inr rec2"
    by simp_all
  from assms r1 r2
  show "add_concordant fl self al1 al2 correct1 correct2 =
          Inr (self\<lparr>data_conc := data_conc self @ [rec1, rec2],
                    lab_conc := lab_conc self @ [correct1, correct2]\<rparr>)"
    by (simp add: add_concordant_def)
  from from_alignments_mate1 [OF r1]
  show "rdname1 rec1 = PStr (name al1)" and "rdlen1 rec1 = PInt (int (al_len al1))"
    and "bestsc1 rec1 = PInt (bestScore al1)" and "mapq1 rec1 = PInt (al_mapq al1)"
    and "best2sc1 rec1 = widened (secondBestScore al1) (thirdBestScore al1)"
    and "minv1 rec1 = of_opt (minValid al1)"
    and "maxv1 rec1 = (if minValid al1 = None then PNone else of_opt (maxValid al1))"
    by simp_all
  from from_alignments_mate1 [OF r2]
  show "rdname1 rec2 = PStr (name al2)" and "rdlen1 rec2 = PInt (int (al_len al2))"
    and "bestsc1 rec2 = PInt (bestScore al2)" and "mapq1 rec2 = PInt (al_mapq al2)"
    and "best2sc1 rec2 = widened (secondBestScore al2) (thirdBestScore al2)"
    and "minv1 rec2 = of_opt (minValid al2)"
    and "maxv1 rec2 = (if minValid al2 = None then PNone else of_opt (maxValid al2))"
    by simp_all
next
  assume "from_alignments fl al1 al2 = Inl e"
  with assms show "add_concordant fl self al1 al2 correct1 correct2 = Inl e"
    by (simp add: add_concordant_def)
next
  assume "from_alignments fl al1 al2 = Inr rec1 \<and> from_alignments fl al2 al1 = Inl e"
  with assms show "add_concordant fl self al1 al2 correct1 correct2 = Inl e"
    by (simp add: add_concordant_def)
qed

text \<open>
  The pair that reports every attribute is appended as two records and two labels. The
  pair of which only the second mate reports a third-best score is not: taken in either
  order, \<open>add_concordant\<close> fails with the AssertionError of the derivation that fails.
\<close>

theorem add_concordant_appends_pair_witness:
  "concordant ex_mate1 \<and> concordant ex_mate2 \<and>
   from_alignments ex_fragment_length ex_mate1 ex_mate2 = Inr ex_rec12 \<and>
   from_alignments ex_fragment_length ex_mate2 ex_mate1 = Inr ex_rec21 \<and>
   add_concordant ex_fragment_length Dataset_init ex_mate1 ex_mate2 (Some True) (Some False) =
     Inr (Dataset_init\<lparr>data_conc := [ex_rec12, ex_rec21],
                       lab_conc := [Some True, Some False]\<rparr>) \<and>
   rdname1 ex_rec12 = PStr ''r2/1'' \<and> maxv1 ex_rec12 = PInt 50 \<and>
   rdname1 ex_rec21 = PStr ''r2/2'' \<and> maxv1 ex_rec21 = PInt 45 \<and>
   concordant ex_al1 \<and> concordant ex_al2 \<and>
   from_alignments ex_fragment_length ex_al2 ex_al1 = Inl AssertionError \<and>
   add_concordant ex_fragment_length Dataset_init ex_al2 ex_al1 (Some True) (Some False) =
     Inl AssertionError \<and>
   from_alignments ex_fragment_length ex_al1 ex_al2 = Inr ex_no_bounds \<and>
   add_concordant ex_fragment_length Dataset_init ex_al1 ex_al2 (Some True) (Some False) =
     Inl AssertionError"
proof -
  have c: "concordant ex_mate1" "concordant ex_mate2"
    and c': "concordant ex_al1" "concordant ex_al2"
    by (simp_all add: ex_mate1_def ex_mate2_def ex_al1_def ex_al2_def)
  have nb: "from_alignments ex_fragment_length ex_al1 ex_al2 = Inr ex_no_bounds"
    using ex_from_alignments_al1_al2 by (simp add: ex_no_bounds_def)
  have 1: "add_concordant ex_fragment_length Dataset_init ex_mate1 ex_mate2 (Some True)
      (Some False) =
     Inr (Dataset_init\<lparr>data_conc := data_conc Dataset_init @ [ex_rec12, ex_rec21],
                       lab_conc := lab_conc Dataset_init @ [Some True, Some False]\<rparr>) \<and>
     rdname1 ex_rec12 = PStr (name ex_mate1) \<and>
     maxv1 ex_rec12 = (if minValid ex_mate1 = None then PNone else of_opt (maxValid ex_mate1)) \<and>
     rdname1 ex_rec21 = PStr (name ex_mate2) \<and>
     maxv1 ex_rec21 = (if minValid ex_mate2 = None then PNone else of_opt (maxValid ex_mate2))"
    using add_concordant_appends_pair [OF c, of ex_fragment_length ex_rec12 ex_rec21
        Dataset_init "Some True" "Some False"] ex_from_alignments_mates
    by blast
  have 2: "add_concordant ex_fragment_length Dataset_init ex_al2 ex_al1 (Some True) (Some False) =
     Inl AssertionError"
    using add_concordant_appends_pair [OF c'(2) c'(1), of ex_fragment_length _ _ Dataset_init
        "Some True" "Some False" AssertionError] ex_from_alignments_al2_al1
    by blast
  have 3: "add_concordant ex_fragment_length Dataset_init ex_al1 ex_al2 (Some True) (Some False) =
     Inl AssertionError"
    using add_concordant_appends_pair [OF c', of ex_fragment_length ex_no_bounds _ Dataset_init
        "Some True" "Some False" AssertionError] nb ex_from_alignments_al2_al1
    by blast
  from 1 2 3 c c' nb ex_from_alignments_mates ex_from_alignments_al2_al1
  show ?thesis
    by (simp add: Dataset_init_def ex_mate1_def ex_mate2_def)
qed

text \<open>
  The claim fails on a concordant pair: with a first mate that reports no third-best score
  and a second that reports one, \<open>add_concordant\<close> raises and appends nothing.
\<close>

theorem add_concordant_raises_on_mixed_pair:
  "concordant ex_al1 \<and> concordant ex_al2 \<and>
   add_concordant ex_fragment_length Dataset_init ex_al1 ex_al2 (Some True) (Some False) =
     Inl AssertionError"
  using ex_from_alignments_al1_al2 ex_from_alignments_al2_al1
  by (simp add: add_concordant_def ex_al1_def ex_al2_def)

lemma concordant_scores_Inr:
  "concordant_scores al1 al2 = Inr (bc, sc) \<Longrightarrow>
     (bestConcordantScore al1 = None \<and> bc = PNone \<and> sc = PNone) \<or>
     (\<exists>b s. bestConcordantScore al1 = Some b \<and> bestConcordantScore al2 = Some b \<and>
            secondBestConcordantScore al1 = Some s \<and> secondBestConcordantScore al2 = Some s \<and>
            bc = PInt b \<and> sc = PInt s)"
  unfolding concordant_scores_def by (auto split: option.splits if_splits)

lemma concordant_scores_unequal:
  "bestConcordantScore al1 = Some b1 \<Longrightarrow> bestConcordantScore al2 = Some b2 \<Longrightarrow>
   secondBestConcordantScore al1 = Some s1 \<Longrightarrow> secondBestConcordantScore al2 = Some s2 \<Longrightarrow>
   b1 \<noteq> b2 \<or> s1 \<noteq> s2 \<Longrightarrow> concordant_scores al1 al2 = Inl AssertionError"
  unfolding concordant_scores_def by auto

lemma from_alignments_concordant_fail:
  assumes "concordant_scores al1 al2 = Inl AssertionError"
  shows "\<exists>e. from_alignments fl al1 al2 = Inl e"
    and "valid_bounds_pair al1 al2 = Inr bounds \<Longrightarrow>
         from_alignments fl al1 al2 = Inl AssertionError"
proof -
  show "\<exists>e. from_alignments fl al1 al2 = Inl e"
    unfolding from_alignments_def using assms
    by (simp split: sum.split prod.split)
  assume vb: "valid_bounds_pair al1 al2 = Inr bounds"
  show "from_alignments fl al1 al2 = Inl AssertionError"
  proof (cases "second_best_pair al1 al2")
    case (Inl e)
    then show ?thesis
      unfolding from_alignments_def by (simp add: second_best_pair_error [OF Inl])
  next
    case (Inr ss)
    then show ?thesis
      unfolding from_alignments_def using assms vb
      by (simp split: prod.split)
  qed
qed

lemma from_alignments_concordant_fields:
  assumes "from_alignments fl al1 al2 = Inr p"
  shows "if both_expose al1 al2
       then bestconcsc p = of_opt (bestConcordantScore al1) \<and>
            best2concsc p = of_opt (secondBestConcordantScore al1) \<and>
            bestconcsc p \<noteq> PNone \<and> best2concsc p \<noteq> PNone \<and>
            bestConcordantScore al1 = bestConcordantScore al2 \<and>
            secondBestConcordantScore al1 = secondBestConcordantScore al2
       else bestconcsc p = PNone \<and> best2concsc p = PNone"
proof -
  from assms obtain bc sc where cs: "concordant_scores al1 al2 = Inr (bc, sc)"
    and p: "bestconcsc p = bc" "best2concsc p = sc"
    by (rule from_alignments_Inr) simp
  from concordant_scores_Inr [OF cs] show ?thesis
  proof (elim disjE exE conjE)
    assume "bestConcordantScore al1 = None" "bc = PNone" "sc = PNone"
    with p show ?thesis by (simp add: both_expose_def)
  next
    fix b s
    assume "bestConcordantScore al1 = Some b" "bestConcordantScore al2 = Some b"
      "secondBestConcordantScore al1 = Some s" "secondBestConcordantScore al2 = Some s"
      "bc = PInt b" "sc = PInt s"
    with p show ?thesis by (simp add: both_expose_def)
  qed
qed

text \<open>
  C7. A record that \<open>from_alignments\<close> returns has its two concordant-score fields
  populated exactly when both mates expose both scores, and then the mates agree on each;
  otherwise the two fields are absent. When both mates expose them and disagree on either,
  no record is returned: the call fails, with an AssertionError whenever the step that
  reads the valid-score bounds has not failed before.
\<close>

theorem concordant_scores_populated:
  "(from_alignments fl al1 al2 = Inr p \<longrightarrow>
      (if both_expose al1 al2
       then bestconcsc p = of_opt (bestConcordantScore al1) \<and>
            best2concsc p = of_opt (secondBestConcordantScore al1) \<and>
            bestconcsc p \<noteq> PNone \<and> best2concsc p \<noteq> PNone \<and>
            bestConcordantScore al1 = bestConcordantScore al2 \<and>
            secondBestConcordantScore al1 = secondBestConcordantScore al2
       else bestconcsc p = PNone \<and> best2concsc p = PNone)) \<and>
   (both_expose al1 al2 \<and>
    (bestConcordantScore al1 \<noteq> bestConcordantScore al2 \<or>
     secondBestConcordantScore al1 \<noteq> secondBestConcordantScore al2) \<longrightarrow>
      (\<exists>e. from_alignments fl al1 al2 = Inl e) \<and>
      ((\<exists>bounds. valid_bounds_pair al1 al2 = Inr bounds) \<longrightarrow>
         from_alignments fl al1 al2 = Inl AssertionError))"
proof (intro conjI impI)
  assume "from_alignments fl al1 al2 = Inr p"
  then show "if both_expose al1 al2
       then bestconcsc p = of_opt (bestConcordantScore al1) \<and>
            best2concsc p = of_opt (secondBestConcordantScore al1) \<and>
            bestconcsc p \<noteq> PNone \<and> best2concsc p \<noteq> PNone \<and>
            bestConcordantScore al1 = bestConcordantScore al2 \<and>
            secondBestConcordantScore al1 = secondBestConcordantScore al2
       else bestconcsc p = PNone \<and> best2concsc p = PNone"
    by (rule from_alignments_concordant_fields)
next
  assume b: "both_expose al1 al2 \<and>
    (bestConcordantScore al1 \<noteq> bestConcordantScore al2 \<or>
     secondBestConcordantScore al1 \<noteq> secondBestConcordantScore al2)"
  then obtain b1 b2 s1 s2 where
    "bestConcordantScore al1 = Some b1" "bestConcordantScore al2 = Some b2"
    "secondBestConcordantScore al1 = Some s1" "secondBestConcordantScore al2 = Some s2"
    "b1 \<noteq> b2 \<or> s1 \<noteq> s2"
    unfolding both_expose_def by auto
  then have cs: "concordant_scores al1 al2 = Inl AssertionError"
    by (rule concordant_scores_unequal)
  show "\<exists>e. from_alignments fl al1 al2 = Inl e"
    by (rule from_alignments_concordant_fail(1) [OF cs])
  assume "\<exists>bounds. valid_bounds_pair al1 al2 = Inr bounds"
  then obtain bounds where "valid_bounds_pair al1 al2 = Inr bounds" ..
  then show "from_alignments fl al1 al2 = Inl AssertionError"
    by (rule from_alignments_concordant_fail(2) [OF cs])
qed

text \<open>
  The agreeing pair gets both fields, 80 and 60; the pair without the attributes gets
  neither; the pair that disagrees on the best concordant score (80 and 81) gets no record.
\<close>

theorem concordant_scores_populated_witness:
  "from_alignments ex_fragment_length ex_mate1 ex_mate2 = Inr ex_rec12 \<and>
   both_expose ex_mate1 ex_mate2 \<and>
   bestconcsc ex_rec12 = PInt 80 \<and> best2concsc ex_rec12 = PInt 60 \<and>
   from_alignments ex_fragment_length ex_al1 ex_al2 = Inr ex_no_bounds \<and>
   \<not> both_expose ex_al1 ex_al2 \<and>
   bestconcsc ex_no_bounds = PNone \<and> best2concsc ex_no_bounds = PNone \<and>
   both_expose ex_mate1 ex_mate2_disagreeing \<and>
   bestConcordantScore ex_mate1 \<noteq> bestConcordantScore ex_mate2_disagreeing \<and>
   valid_bounds_pair ex_mate1 ex_mate2_disagreeing =
     Inr ((PInt 0, PInt 0), (PInt 50, PInt 45)) \<and>
   from_alignments ex_fragment_length ex_mate1 ex_mate2_disagreeing = Inl AssertionError"
proof -
  have be: "both_expose ex_mate1 ex_mate2" "both_expose ex_mate1 ex_mate2_disagreeing"
    and nb: "\<not> both_expose ex_al1 ex_al2"
    and ne: "bestConcordantScore ex_mate1 \<noteq> bestConcordantScore ex_mate2_disagreeing"
    and vb: "valid_bounds_pair ex_mate1 ex_mate2_disagreeing =
      Inr ((PInt 0, PInt 0), (PInt 50, PInt 45))"
    by (simp_all add: both_expose_def valid_bounds_pair_def ex_mate1_def ex_mate2_def
        ex_mate2_disagreeing_def ex_al1_def)
  have nbr: "from_alignments ex_fragment_length ex_al1 ex_al2 = Inr ex_no_bounds"
    using ex_from_alignments_al1_al2 by (simp add: ex_no_bounds_def)
  from concordant_scores_populated [of ex_fragment_length ex_mate1 ex_mate2 ex_rec12]
    concordant_scores_populated [of ex_fragment_length ex_al1 ex_al2 ex_no_bounds]
    concordant_scores_populated [of ex_fragment_length ex_mate1 ex_mate2_disagreeing]
    be nb ne vb nbr ex_from_alignments_mates(1)
  show ?thesis by (simp add: ex_mate1_def)
qed

section \<open>Evaluating text\<close>

lemmas py_int_eval =
  int_or_none_def py_int_def strip_def is_space_def unsigned_int_def is_digit_def digit_val_def

lemmas csv_eval =
  csv_reader_def file_lines_def process_line_def parse_process_char_def start_field_def
  parse_add_char_def parse_save_field_def parse_reset_def field_limit_def reader_end_def

lemmas str_eval = str_int_def str_nat.simps digit_char_def field_str_def row_tokens_def

section \<open>Reading one row\<close>

lemma map_int_or_none_Inr:
  "map_int_or_none ts = Inr vs \<Longrightarrow>
     length vs = length ts \<and> (\<forall>i < length ts. int_or_none (ts ! i) = Inr (vs ! i))"
proof (induction ts arbitrary: vs)
  case Nil
  then show ?case by simp
next
  case (Cons t ts)
  from Cons.prems obtain v vs' where v: "int_or_none t = Inr v"
    and vs': "map_int_or_none ts = Inr vs'" and vs: "vs = v # vs'"
    by (auto split: sum.splits)
  from Cons.IH [OF vs'] v vs show ?case
    by (auto simp: nth_Cons split: nat.splits)
qed

lemma int_or_none_PNone: "int_or_none s = Inr PNone \<longleftrightarrow> s = ''NA''"
  by (auto simp: int_or_none_def split: sum.splits)

lemma UnpairedTuple_init_fields:
  "UnpairedTuple_init n l mn mx b s q ol = Inr r \<Longrightarrow>
     r = \<lparr>rdname = n, rdlen = l, ordlen = ol, minv = mn, maxv = mx, bestsc = b,
          best2sc = s, mapq = q\<rparr>"
  by (auto simp: UnpairedTuple_init_def split: if_splits)

lemma unpack8:
  "(case vs of [a, b, c, d, e, f, g, h] \<Rightarrow> F a b c d e f g h | _ \<Rightarrow> Inl err) = Inr x \<Longrightarrow>
     \<exists>a b c d e f g h. vs = [a, b, c, d, e, f, g, h] \<and> F a b c d e f g h = Inr x"
  by (simp split: list.splits)

lemma unpack7:
  "(case vs of [a, b, c, d, e, f, g] \<Rightarrow> F a b c d e f g | _ \<Rightarrow> Inl err) = Inr x \<Longrightarrow>
     \<exists>a b c d e f g. vs = [a, b, c, d, e, f, g] \<and> F a b c d e f g = Inr x"
  by (simp split: list.splits)

lemma unpack3:
  "(case vs of [a, b, c] \<Rightarrow> F a b c | _ \<Rightarrow> Inl err) = Inr x \<Longrightarrow>
     \<exists>a b c. vs = [a, b, c] \<and> F a b c = Inr x"
  by (simp split: list.splits)

lemma sum_case_Inr:
  "(case m of Inl e \<Rightarrow> Inl e | Inr v \<Rightarrow> G v) = Inr x \<Longrightarrow> \<exists>v. m = Inr v \<and> G v = Inr x"
  by (cases m) simp_all

lemma read_unpaired_row_Inr:
  assumes "read_unpaired_row toks = Inr (r, c)"
  obtains n b s mn mx l q ol where
    "map_int_or_none (take 8 toks) = Inr [n, b, s, mn, mx, l, q, ol]"
    "UnpairedTuple_init n l mn mx b s q ol = Inr r"
    "c = (last toks = ''T'')"
proof -
  from assms [unfolded read_unpaired_row_def] obtain vs where
    vs: "map_int_or_none (take 8 toks) = Inr vs" and
    u: "(case vs of
          [rdname', best, secbest, minv', maxv', ln, mapq', oln] \<Rightarrow>
            (case UnpairedTuple_init rdname' ln minv' maxv' best secbest mapq' oln of
               Inl e \<Rightarrow> Inl e
             | Inr r \<Rightarrow> Inr (r, last toks = ''T''))
        | _ \<Rightarrow> Inl ValueError) = Inr (r, c)"
    by (blast dest: sum_case_Inr)
  from unpack8 [OF u] obtain n b s mn mx l q ol where
    l: "vs = [n, b, s, mn, mx, l, q, ol]" and
    i: "(case UnpairedTuple_init n l mn mx b s q ol of
           Inl e \<Rightarrow> Inl e
         | Inr r \<Rightarrow> Inr (r, last toks = ''T'')) = Inr (r, c)"
    by blast
  from sum_case_Inr [OF i] have "UnpairedTuple_init n l mn mx b s q ol = Inr r"
    and "c = (last toks = ''T'')"
    by auto
  with vs l that show ?thesis by blast
qed

lemma read_paired_row_Inr:
  assumes "read_paired_row toks = Inr (r, c)"
  obtains n1 b1 s1 mn1 mx1 l1 q1 n2 b2 s2 mn2 mx2 l2 q2 bc sc fl where
    "map_int_or_none (take 7 toks) = Inr [n1, b1, s1, mn1, mx1, l1, q1]"
    "map_int_or_none (take 7 (drop 7 toks)) = Inr [n2, b2, s2, mn2, mx2, l2, q2]"
    "map_int_or_none (take 3 (drop 14 toks)) = Inr [bc, sc, fl]"
    "PairedTuple_init n1 l1 mn1 mx1 b1 s1 q1 n2 l2 mn2 mx2 b2 s2 q2 bc sc fl = Inr r"
    "c = (last toks = ''T'')"
proof -
  from sum_case_Inr [OF assms [unfolded read_paired_row_def]] obtain vs1 where
    vs1: "map_int_or_none (take 7 toks) = Inr vs1" and
    u1: "(case vs1 of
          [rdname1', best1, secbest1, minv1', maxv1', ln1, mapq1'] \<Rightarrow>
          (case map_int_or_none (take 7 (drop 7 toks)) of
             Inl e \<Rightarrow> Inl e
           | Inr [rdname2', best2, secbest2, minv2', maxv2', ln2, mapq2'] \<Rightarrow>
               (case map_int_or_none (take 3 (drop 14 toks)) of
                  Inl e \<Rightarrow> Inl e
                | Inr [bestconc, secbestconc, fraglen'] \<Rightarrow>
                    (case PairedTuple_init rdname1' ln1 minv1' maxv1' best1 secbest1 mapq1'
                            rdname2' ln2 minv2' maxv2' best2 secbest2 mapq2'
                            bestconc secbestconc fraglen' of
                       Inl e \<Rightarrow> Inl e
                     | Inr r \<Rightarrow> Inr (r, last toks = ''T''))
                | Inr _ \<Rightarrow> Inl ValueError)
           | Inr _ \<Rightarrow> Inl ValueError)
         | _ \<Rightarrow> Inl ValueError) = Inr (r, c)"
    by blast
  from unpack7 [OF u1] obtain n1 b1 s1 mn1 mx1 l1 q1 where
    l1: "vs1 = [n1, b1, s1, mn1, mx1, l1, q1]" and
    r1: "(case map_int_or_none (take 7 (drop 7 toks)) of
             Inl e \<Rightarrow> Inl e
           | Inr [rdname2', best2, secbest2, minv2', maxv2', ln2, mapq2'] \<Rightarrow>
               (case map_int_or_none (take 3 (drop 14 toks)) of
                  Inl e \<Rightarrow> Inl e
                | Inr [bestconc, secbestconc, fraglen'] \<Rightarrow>
                    (case PairedTuple_init n1 l1 mn1 mx1 b1 s1 q1
                            rdname2' ln2 minv2' maxv2' best2 secbest2 mapq2'
                            bestconc secbestconc fraglen' of
                       Inl e \<Rightarrow> Inl e
                     | Inr r \<Rightarrow> Inr (r, last toks = ''T''))
                | Inr _ \<Rightarrow> Inl ValueError)
           | Inr _ \<Rightarrow> Inl ValueError) = Inr (r, c)"
    by blast
  from sum_case_Inr [OF r1] obtain vs2 where
    vs2: "map_int_or_none (take 7 (drop 7 toks)) = Inr vs2" and
    u2: "(case vs2 of
           [rdname2', best2, secbest2, minv2', maxv2', ln2, mapq2'] \<Rightarrow>
               (case map_int_or_none (take 3 (drop 14 toks)) of
                  Inl e \<Rightarrow> Inl e
                | Inr [bestconc, secbestconc, fraglen'] \<Rightarrow>
                    (case PairedTuple_init n1 l1 mn1 mx1 b1 s1 q1
                            rdname2' ln2 minv2' maxv2' best2 secbest2 mapq2'
                            bestconc secbestconc fraglen' of
                       Inl e \<Rightarrow> Inl e
                     | Inr r \<Rightarrow> Inr (r, last toks = ''T''))
                | Inr _ \<Rightarrow> Inl ValueError)
           | _ \<Rightarrow> Inl ValueError) = Inr (r, c)"
    by blast
  from unpack7 [OF u2] obtain n2 b2 s2 mn2 mx2 l2 q2 where
    l2: "vs2 = [n2, b2, s2, mn2, mx2, l2, q2]" and
    r2: "(case map_int_or_none (take 3 (drop 14 toks)) of
                  Inl e \<Rightarrow> Inl e
                | Inr [bestconc, secbestconc, fraglen'] \<Rightarrow>
                    (case PairedTuple_init n1 l1 mn1 mx1 b1 s1 q1
                            n2 l2 mn2 mx2 b2 s2 q2
                            bestconc secbestconc fraglen' of
                       Inl e \<Rightarrow> Inl e
                     | Inr r \<Rightarrow> Inr (r, last toks = ''T''))
                | Inr _ \<Rightarrow> Inl ValueError) = Inr (r, c)"
    by blast
  from sum_case_Inr [OF r2] obtain vs3 where
    vs3: "map_int_or_none (take 3 (drop 14 toks)) = Inr vs3" and
    u3: "(case vs3 of
            [bestconc, secbestconc, fraglen'] \<Rightarrow>
                    (case PairedTuple_init n1 l1 mn1 mx1 b1 s1 q1
                            n2 l2 mn2 mx2 b2 s2 q2
                            bestconc secbestconc fraglen' of
                       Inl e \<Rightarrow> Inl e
                     | Inr r \<Rightarrow> Inr (r, last toks = ''T''))
                | _ \<Rightarrow> Inl ValueError) = Inr (r, c)"
    by blast
  from unpack3 [OF u3] obtain bc sc fl where
    l3: "vs3 = [bc, sc, fl]" and
    r3: "(case PairedTuple_init n1 l1 mn1 mx1 b1 s1 q1 n2 l2 mn2 mx2 b2 s2 q2 bc sc fl of
            Inl e \<Rightarrow> Inl e
          | Inr r \<Rightarrow> Inr (r, last toks = ''T'')) = Inr (r, c)"
    by blast
  from sum_case_Inr [OF r3]
  have "PairedTuple_init n1 l1 mn1 mx1 b1 s1 q1 n2 l2 mn2 mx2 b2 s2 q2 bc sc fl = Inr r"
    and "c = (last toks = ''T'')"
    by auto
  with vs1 l1 vs2 l2 vs3 l3 that show ?thesis by blast
qed

lemma read_unpaired_row_nth:
  assumes "read_unpaired_row toks = Inr (r, c)"
  shows "int_or_none (toks ! 3) = Inr (minv r) \<and> int_or_none (toks ! 4) = Inr (maxv r)"
proof -
  from assms obtain n b s mn mx l q ol where
    vs: "map_int_or_none (take 8 toks) = Inr [n, b, s, mn, mx, l, q, ol]" and
    i: "UnpairedTuple_init n l mn mx b s q ol = Inr r"
    by (rule read_unpaired_row_Inr)
  from map_int_or_none_Inr [OF vs] have len: "8 \<le> length toks"
    and nth: "\<forall>i < 8. int_or_none (toks ! i) = Inr ([n, b, s, mn, mx, l, q, ol] ! i)"
    by auto
  from nth have "int_or_none (toks ! 3) = Inr ([n, b, s, mn, mx, l, q, ol] ! 3)"
    "int_or_none (toks ! 4) = Inr ([n, b, s, mn, mx, l, q, ol] ! 4)"
    by simp_all
  with UnpairedTuple_init_fields [OF i] show ?thesis by simp
qed

lemma read_paired_row_nth:
  assumes "read_paired_row toks = Inr (r, c)"
  shows "int_or_none (toks ! 3) = Inr (minv1 r) \<and> int_or_none (toks ! 4) = Inr (maxv1 r) \<and>
         int_or_none (toks ! 10) = Inr (minv2 r) \<and> int_or_none (toks ! 11) = Inr (maxv2 r)"
proof -
  from assms obtain n1 b1 s1 mn1 mx1 l1 q1 n2 b2 s2 mn2 mx2 l2 q2 bc sc fl where
    vs1: "map_int_or_none (take 7 toks) = Inr [n1, b1, s1, mn1, mx1, l1, q1]" and
    vs2: "map_int_or_none (take 7 (drop 7 toks)) = Inr [n2, b2, s2, mn2, mx2, l2, q2]" and
    i: "PairedTuple_init n1 l1 mn1 mx1 b1 s1 q1 n2 l2 mn2 mx2 b2 s2 q2 bc sc fl = Inr r"
    by (rule read_paired_row_Inr)
  from map_int_or_none_Inr [OF vs1] have len1: "7 \<le> length toks"
    and nth1: "\<forall>i < 7. int_or_none (toks ! i) = Inr ([n1, b1, s1, mn1, mx1, l1, q1] ! i)"
    by auto
  from map_int_or_none_Inr [OF vs2] have len2: "14 \<le> length toks"
    and nth2: "\<forall>i < 7. int_or_none (toks ! (7 + i)) = Inr ([n2, b2, s2, mn2, mx2, l2, q2] ! i)"
    by auto
  from nth1 have a: "int_or_none (toks ! 3) = Inr ([n1, b1, s1, mn1, mx1, l1, q1] ! 3)"
    "int_or_none (toks ! 4) = Inr ([n1, b1, s1, mn1, mx1, l1, q1] ! 4)"
    by simp_all
  from nth2 [rule_format, of 3] nth2 [rule_format, of 4]
  have b: "int_or_none (toks ! 10) = Inr mn2" "int_or_none (toks ! 11) = Inr mx2"
    by simp_all
  from a b PairedTuple_init_fields [OF i] show ?thesis by simp
qed

lemma read_unpaired_row_absent_bounds:
  assumes "int_or_none t0 = Inr n" "int_or_none t1 = Inr b" "int_or_none t2 = Inr s"
    "int_or_none t5 = Inr l" "int_or_none t6 = Inr q" "int_or_none t7 = Inr ol"
  shows "read_unpaired_row ([t0, t1, t2, ''NA'', ''NA'', t5, t6, t7] @ rest) =
     Inr (\<lparr>rdname = n, rdlen = l, ordlen = ol, minv = PNone, maxv = PNone, bestsc = b,
           best2sc = s, mapq = q\<rparr>, last ([t0, t1, t2, ''NA'', ''NA'', t5, t6, t7] @ rest) = ''T'')"
proof -
  have na: "int_or_none ''NA'' = Inr PNone" by (simp add: int_or_none_def)
  have "map_int_or_none (take 8 ([t0, t1, t2, ''NA'', ''NA'', t5, t6, t7] @ rest)) =
          Inr [n, b, s, PNone, PNone, l, q, ol]"
    using assms na by simp
  then show ?thesis
    unfolding read_unpaired_row_def by (simp add: UnpairedTuple_init_def)
qed

lemma read_paired_row_absent_bounds:
  assumes "int_or_none t0 = Inr n1" "int_or_none t1 = Inr b1" "int_or_none t2 = Inr s1"
    "int_or_none t5 = Inr l1" "int_or_none t6 = Inr q1"
    "int_or_none t7 = Inr n2" "int_or_none t8 = Inr b2" "int_or_none t9 = Inr s2"
    "int_or_none t12 = Inr l2" "int_or_none t13 = Inr q2"
    "int_or_none t14 = Inr bc" "int_or_none t15 = Inr sc" "int_or_none t16 = Inr fl"
  shows "read_paired_row
           ([t0, t1, t2, ''NA'', ''NA'', t5, t6, t7, t8, t9, ''NA'', ''NA'', t12, t13,
             t14, t15, t16] @ rest) =
     Inr (\<lparr>rdname1 = n1, rdname2 = n2, rdlen1 = l1, rdlen2 = l2, minv1 = PNone,
           minv2 = PNone, maxv1 = PNone, maxv2 = PNone, bestsc1 = b1, bestsc2 = b2,
           best2sc1 = s1, best2sc2 = s2, mapq1 = q1, mapq2 = q2, bestconcsc = bc,
           best2concsc = sc, fraglen = fl\<rparr>,
          last ([t0, t1, t2, ''NA'', ''NA'', t5, t6, t7, t8, t9, ''NA'', ''NA'', t12, t13,
                 t14, t15, t16] @ rest) = ''T'')"
proof -
  have na: "int_or_none ''NA'' = Inr PNone" by (simp add: int_or_none_def)
  let ?toks = "[t0, t1, t2, ''NA'', ''NA'', t5, t6, t7, t8, t9, ''NA'', ''NA'', t12, t13,
             t14, t15, t16] @ rest"
  have 1: "map_int_or_none (take 7 ?toks) = Inr [n1, b1, s1, PNone, PNone, l1, q1]"
    using assms na by simp
  have 2: "map_int_or_none (take 7 (drop 7 ?toks)) = Inr [n2, b2, s2, PNone, PNone, l2, q2]"
    using assms na by simp
  have 3: "map_int_or_none (take 3 (drop 14 ?toks)) = Inr [bc, sc, fl]"
    using assms na by simp
  show ?thesis
    unfolding read_paired_row_def 1 2 3 by (simp add: PairedTuple_init_def)
qed

lemma ex_read_row18: "read_paired_row ex_row18 = Inr (ex_paired_loaded, True)"
  by (simp add: read_paired_row_def ex_row18_def py_int_eval PairedTuple_init_def
      ex_paired_loaded_def)

text \<open>
  The token NA in one row. A record whose min and max valid scores are absent gives the
  token in the two columns (3 and 4; 10 and 11 for the second mate), \<open>int_or_none\<close>
  maps it to the absence value, and a row that the row reader accepts has an absent bound
  exactly where its token is NA.
\<close>

lemma row_na_tokens:
  "(minv r = PNone \<and> maxv r = PNone \<longrightarrow>
      row_tokens (UnpairedTuple_iter r) correct ! 3 = ''NA'' \<and>
      row_tokens (UnpairedTuple_iter r) correct ! 4 = ''NA'') \<and>
   (minv1 p = PNone \<and> maxv1 p = PNone \<and> minv2 p = PNone \<and> maxv2 p = PNone \<longrightarrow>
      row_tokens (PairedTuple_iter p) correct ! 3 = ''NA'' \<and>
      row_tokens (PairedTuple_iter p) correct ! 4 = ''NA'' \<and>
      row_tokens (PairedTuple_iter p) correct ! 10 = ''NA'' \<and>
      row_tokens (PairedTuple_iter p) correct ! 11 = ''NA'') \<and>
   int_or_none ''NA'' = Inr PNone \<and>
   (read_unpaired_row toks = Inr (r', c) \<longrightarrow>
      (toks ! 3 = ''NA'' \<longleftrightarrow> minv r' = PNone) \<and> (toks ! 4 = ''NA'' \<longleftrightarrow> maxv r' = PNone)) \<and>
   (read_paired_row ptoks = Inr (p', c') \<longrightarrow>
      (ptoks ! 3 = ''NA'' \<longleftrightarrow> minv1 p' = PNone) \<and> (ptoks ! 4 = ''NA'' \<longleftrightarrow> maxv1 p' = PNone) \<and>
      (ptoks ! 10 = ''NA'' \<longleftrightarrow> minv2 p' = PNone) \<and> (ptoks ! 11 = ''NA'' \<longleftrightarrow> maxv2 p' = PNone)) \<and>
   (int_or_none t0 = Inr n \<and> int_or_none t1 = Inr b \<and> int_or_none t2 = Inr s \<and>
    int_or_none t5 = Inr l \<and> int_or_none t6 = Inr q \<and> int_or_none t7 = Inr ol \<longrightarrow>
      read_unpaired_row ([t0, t1, t2, ''NA'', ''NA'', t5, t6, t7] @ rest) =
        Inr (\<lparr>rdname = n, rdlen = l, ordlen = ol, minv = PNone, maxv = PNone, bestsc = b,
              best2sc = s, mapq = q\<rparr>,
             last ([t0, t1, t2, ''NA'', ''NA'', t5, t6, t7] @ rest) = ''T''))"
proof (intro conjI impI)
  assume "minv r = PNone \<and> maxv r = PNone"
  then show "row_tokens (UnpairedTuple_iter r) correct ! 3 = ''NA''"
    and "row_tokens (UnpairedTuple_iter r) correct ! 4 = ''NA''"
    by (simp_all add: row_tokens_def UnpairedTuple_iter_def field_str_def)
next
  assume "minv1 p = PNone \<and> maxv1 p = PNone \<and> minv2 p = PNone \<and> maxv2 p = PNone"
  then show "row_tokens (PairedTuple_iter p) correct ! 3 = ''NA''"
    and "row_tokens (PairedTuple_iter p) correct ! 4 = ''NA''"
    and "row_tokens (PairedTuple_iter p) correct ! 10 = ''NA''"
    and "row_tokens (PairedTuple_iter p) correct ! 11 = ''NA''"
    by (simp_all add: row_tokens_def PairedTuple_iter_def field_str_def)
next
  show "int_or_none ''NA'' = Inr PNone" by (simp add: int_or_none_def)
next
  assume "read_unpaired_row toks = Inr (r', c)"
  from read_unpaired_row_nth [OF this]
  show "toks ! 3 = ''NA'' \<longleftrightarrow> minv r' = PNone" and "toks ! 4 = ''NA'' \<longleftrightarrow> maxv r' = PNone"
    using int_or_none_PNone [of "toks ! 3"] int_or_none_PNone [of "toks ! 4"] by auto
next
  assume "read_paired_row ptoks = Inr (p', c')"
  from read_paired_row_nth [OF this]
  show "ptoks ! 3 = ''NA'' \<longleftrightarrow> minv1 p' = PNone" and "ptoks ! 4 = ''NA'' \<longleftrightarrow> maxv1 p' = PNone"
    and "ptoks ! 10 = ''NA'' \<longleftrightarrow> minv2 p' = PNone" and "ptoks ! 11 = ''NA'' \<longleftrightarrow> maxv2 p' = PNone"
    using int_or_none_PNone [of "ptoks ! 3"] int_or_none_PNone [of "ptoks ! 4"]
      int_or_none_PNone [of "ptoks ! 10"] int_or_none_PNone [of "ptoks ! 11"]
    by auto
next
  assume "int_or_none t0 = Inr n \<and> int_or_none t1 = Inr b \<and> int_or_none t2 = Inr s \<and>
    int_or_none t5 = Inr l \<and> int_or_none t6 = Inr q \<and> int_or_none t7 = Inr ol"
  then show "read_unpaired_row ([t0, t1, t2, ''NA'', ''NA'', t5, t6, t7] @ rest) =
        Inr (\<lparr>rdname = n, rdlen = l, ordlen = ol, minv = PNone, maxv = PNone, bestsc = b,
              best2sc = s, mapq = q\<rparr>,
             last ([t0, t1, t2, ''NA'', ''NA'', t5, t6, t7] @ rest) = ''T'')"
    by (intro read_unpaired_row_absent_bounds) simp_all
qed

section \<open>The width of a row\<close>

lemma load_paired_rows_width:
  "\<exists>toks \<in> set rows. length toks \<noteq> 18 \<Longrightarrow> \<exists>e. load_paired_rows rows d l = Inl e"
proof (induction rows arbitrary: d l)
  case Nil
  then show ?case by simp
next
  case (Cons toks rest)
  show ?case
  proof (cases "length toks = 18")
    case False
    then show ?thesis by simp
  next
    case True
    with Cons.prems have "\<exists>toks \<in> set rest. length toks \<noteq> 18" by simp
    from Cons.IH [OF this] True show ?thesis
      by (simp split: sum.split prod.split)
  qed
qed

lemma load_in_fails:
  assumes "k \<in> set ks" and "\<And>self. \<exists>e. load_file fs p self k = Inl e"
  shows "\<exists>e. load_in ks fs p self = Inl e"
  using assms(1)
proof (induction ks arbitrary: self)
  case Nil
  then show ?case by simp
next
  case (Cons k' ks)
  show ?case
  proof (cases "load_file fs p self k'")
    case (Inl e)
    then show ?thesis by simp
  next
    case (Inr s1)
    with assms(2) [of self] have "k' \<noteq> k" by auto
    with Cons.prems have "k \<in> set ks" by simp
    from Cons.IH [OF this, of s1] Inr show ?thesis by simp
  qed
qed

lemma load_file_paired_width:
  assumes "is_paired k" and "open_for_load fs (file_name p k) = Inr text0"
    and "\<exists>toks \<in> set (fst (csv_reader text0)). length toks \<noteq> 18"
  shows "\<exists>e. load_file fs p self k = Inl e"
proof -
  obtain rows err where c: "csv_reader text0 = (rows, err)"
    by (cases "csv_reader text0")
  with assms(3) have "\<exists>toks \<in> set rows. length toks \<noteq> 18" by simp
  from load_paired_rows_width [OF this]
  obtain e1 e2 where "load_paired_rows rows (data_conc self) (lab_conc self) = Inl e1"
    and "load_paired_rows rows (data_disc self) (lab_disc self) = Inl e2"
    by blast
  with assms(1,2) c show ?thesis
    by (cases k) (simp_all add: load_file_def)
qed

text \<open>
  C3 (amended). In a paired-shaped file a row passes the width assertion exactly when it
  has 18 tokens, the 17 fields and the label: a row of any other width raises an
  AssertionError at that row, and makes \<open>load\<close> fail whatever the order of the files;
  a row of 18 tokens that is not a header and that reads as a record is appended.
\<close>

theorem paired_row_width:
  "(length toks \<noteq> 18 \<longrightarrow> load_paired_rows (toks # rest) d l = Inl AssertionError) \<and>
   (length toks = 18 \<and> hd toks \<noteq> ''name1'' \<and> read_paired_row toks = Inr (r, c) \<longrightarrow>
      load_paired_rows (toks # rest) d l = load_paired_rows rest (d @ [r]) (l @ [Some c])) \<and>
   (is_paired k \<and> k \<in> set ks \<and> open_for_load fs (file_name p k) = Inr text0 \<and>
    (\<exists>row \<in> set (fst (csv_reader text0)). length row \<noteq> 18) \<longrightarrow>
      (\<exists>e. load_in ks fs p self = Inl e))"
proof (intro conjI impI)
  assume "length toks \<noteq> 18"
  then show "load_paired_rows (toks # rest) d l = Inl AssertionError" by auto
next
  assume "length toks = 18 \<and> hd toks \<noteq> ''name1'' \<and> read_paired_row toks = Inr (r, c)"
  then show "load_paired_rows (toks # rest) d l = load_paired_rows rest (d @ [r]) (l @ [Some c])"
    by auto
next
  assume a: "is_paired k \<and> k \<in> set ks \<and> open_for_load fs (file_name p k) = Inr text0 \<and>
    (\<exists>row \<in> set (fst (csv_reader text0)). length row \<noteq> 18)"
  then have "\<And>self. \<exists>e. load_file fs p self k = Inl e"
    by (intro load_file_paired_width) auto
  with a show "\<exists>e. load_in ks fs p self = Inl e"
    by (intro load_in_fails) auto
qed

theorem paired_row_width_witness:
  "load_paired_rows [ex_row17] [] [] = Inl AssertionError \<and>
   load_paired_rows [ex_row18] [] [] = Inr ([ex_paired_loaded], [Some True]) \<and>
   (\<exists>e. load_in [Unp, Conc, Disc, Bad_end] ex_paired_files ''p'' Dataset_init = Inl e)"
proof -
  have w: "length ex_row17 \<noteq> 18" "length ex_row18 = 18 \<and> hd ex_row18 \<noteq> ''name1'' \<and>
      read_paired_row ex_row18 = Inr (ex_paired_loaded, True)"
    using ex_read_row18 by (simp_all add: ex_row17_def ex_row18_def)
  have f: "is_paired Conc \<and> Conc \<in> set [Unp, Conc, Disc, Bad_end] \<and>
    open_for_load ex_paired_files (file_name ''p'' Conc) =
      Inr (''7,41,30,NA,NA,100,37,8,40,-9,0,45,90,30,NA,NA,250'' @ [CHR 0x0A]) \<and>
    (\<exists>row \<in> set (fst (csv_reader
         (''7,41,30,NA,NA,100,37,8,40,-9,0,45,90,30,NA,NA,250'' @ [CHR 0x0A]))).
       length row \<noteq> 18)"
    by (simp add: open_for_load_def ex_paired_files_def file_name_def csv_eval)
  have 1: "load_paired_rows [ex_row17] [] [] = Inl AssertionError"
    using paired_row_width [of ex_row17 "[]" "[]" "[]"] w(1) by blast
  have "load_paired_rows [ex_row18] [] [] =
      load_paired_rows [] ([] @ [ex_paired_loaded]) ([] @ [Some True])"
    using paired_row_width [of ex_row18 "[]" "[]" "[]" ex_paired_loaded True] w(2) by blast
  then have 2: "load_paired_rows [ex_row18] [] [] = Inr ([ex_paired_loaded], [Some True])"
    by simp
  have 3: "\<exists>e. load_in [Unp, Conc, Disc, Bad_end] ex_paired_files ''p'' Dataset_init = Inl e"
    using paired_row_width [of ex_row17 "[]" "[]" "[]" ex_paired_loaded True Conc
        "[Unp, Conc, Disc, Bad_end]" ex_paired_files "''p''"
        "''7,41,30,NA,NA,100,37,8,40,-9,0,45,90,30,NA,NA,250'' @ [CHR 0x0A]" Dataset_init] f
    by blast
  from 1 2 3 show ?thesis by blast
qed

text \<open>
  The widths of the claim fail on a paired file: the row of 18 tokens is accepted and
  the row of 17 tokens is rejected.
\<close>

theorem paired_row_width_not_17:
  "length ex_row18 = 18 \<and>
   load_paired_rows [ex_row18] [] [] = Inr ([ex_paired_loaded], [Some True]) \<and>
   length ex_row17 = 17 \<and>
   load_paired_rows [ex_row17] [] [] = Inl AssertionError"
  using ex_read_row18 by (simp add: ex_row17_def) (simp add: ex_row18_def)

section \<open>Loading appends\<close>

lemma load_paired_rows_append:
  "load_paired_rows rows (d @ d0) (l @ l0) =
     (case load_paired_rows rows d0 l0 of
        Inl e \<Rightarrow> Inl e
      | Inr (x, y) \<Rightarrow> Inr (d @ x, l @ y))"
proof (induction rows arbitrary: d0 l0)
  case Nil
  show ?case by simp
next
  case (Cons toks rest)
  show ?case
  proof (cases "read_paired_row toks")
    case (Inl e)
    then show ?thesis using Cons.IH [of d0 l0] by simp
  next
    case (Inr rc)
    obtain r c where rc: "rc = (r, c)" by (cases rc)
    show ?thesis
      using Cons.IH [of d0 l0] Cons.IH [of "d0 @ [r]" "l0 @ [Some c]"] Inr rc by simp
  qed
qed

lemma load_unpaired_rows_append:
  "load_unpaired_rows rows (d @ d0) (l @ l0) =
     (case load_unpaired_rows rows d0 l0 of
        Inl e \<Rightarrow> Inl e
      | Inr (x, y) \<Rightarrow> Inr (d @ x, l @ y))"
proof (induction rows arbitrary: d0 l0)
  case Nil
  show ?case by simp
next
  case (Cons toks rest)
  show ?case
  proof (cases "read_unpaired_row toks")
    case (Inl e)
    then show ?thesis using Cons.IH [of d0 l0] by simp
  next
    case (Inr rc)
    obtain r c where rc: "rc = (r, c)" by (cases rc)
    show ?thesis
      using Cons.IH [of d0 l0] Cons.IH [of "d0 @ [r]" "l0 @ [Some c]"] Inr rc by simp
  qed
qed

lemma load_file_parsed:
  "load_file fs p self k =
     (case k of
        Unp \<Rightarrow> (case parse_unpaired_file fs p Unp of Inl e \<Rightarrow> Inl e
                | Inr (d, l) \<Rightarrow> Inr (self\<lparr>data_unp := data_unp self @ d, lab_unp := lab_unp self @ l\<rparr>))
      | Conc \<Rightarrow> (case parse_paired_file fs p Conc of Inl e \<Rightarrow> Inl e
                | Inr (d, l) \<Rightarrow> Inr (self\<lparr>data_conc := data_conc self @ d, lab_conc := lab_conc self @ l\<rparr>))
      | Disc \<Rightarrow> (case parse_paired_file fs p Disc of Inl e \<Rightarrow> Inl e
                | Inr (d, l) \<Rightarrow> Inr (self\<lparr>data_disc := data_disc self @ d, lab_disc := lab_disc self @ l\<rparr>))
      | Bad_end \<Rightarrow> (case parse_unpaired_file fs p Bad_end of Inl e \<Rightarrow> Inl e
                | Inr (d, l) \<Rightarrow> Inr (self\<lparr>data_bad_end := data_bad_end self @ d,
                                      lab_bad_end := lab_bad_end self @ l\<rparr>)))"
proof (cases "open_for_load fs (file_name p k)")
  case (Inl e)
  then show ?thesis
    by (cases k) (simp_all add: load_file_def parse_unpaired_file_def parse_paired_file_def)
next
  case (Inr text0)
  obtain rows err where c: "csv_reader text0 = (rows, err)"
    by (cases "csv_reader text0")
  show ?thesis
  proof (cases k)
    case Unp
    with Inr c load_unpaired_rows_append [of rows "data_unp self" "[]" "lab_unp self" "[]"]
    show ?thesis
      by (simp add: load_file_def parse_unpaired_file_def reader_end_def
          split: sum.splits prod.splits option.splits)
  next
    case Conc
    with Inr c load_paired_rows_append [of rows "data_conc self" "[]" "lab_conc self" "[]"]
    show ?thesis
      by (simp add: load_file_def parse_paired_file_def reader_end_def
          split: sum.splits prod.splits option.splits)
  next
    case Disc
    with Inr c load_paired_rows_append [of rows "data_disc self" "[]" "lab_disc self" "[]"]
    show ?thesis
      by (simp add: load_file_def parse_paired_file_def reader_end_def
          split: sum.splits prod.splits option.splits)
  next
    case Bad_end
    with Inr c load_unpaired_rows_append [of rows "data_bad_end self" "[]" "lab_bad_end self" "[]"]
    show ?thesis
      by (simp add: load_file_def parse_unpaired_file_def reader_end_def
          split: sum.splits prod.splits option.splits)
  qed
qed

lemma load_file_appended:
  assumes "load_file fs p self k = Inr self'"
  shows "parses fs p k \<and> self' = appended fs p k self"
  using assms unfolding load_file_parsed
  by (cases k) (auto split: sum.splits)

lemma load_in_fold:
  "load_in ks fs p self = Inr self' \<Longrightarrow>
     (\<forall>k \<in> set ks. parses fs p k) \<and> self' = fold (appended fs p) ks self"
proof (induction ks arbitrary: self)
  case Nil
  then show ?case by simp
next
  case (Cons k ks)
  from Cons.prems obtain s1 where s1: "load_file fs p self k = Inr s1"
    and rest: "load_in ks fs p s1 = Inr self'"
    by (auto split: sum.splits)
  from load_file_appended [OF s1] Cons.IH [OF rest] show ?case by simp
qed

lemma appended_commute: "appended fs p k \<circ> appended fs p k' = appended fs p k' \<circ> appended fs p k"
  by (rule ext, cases k; cases k') (auto split: sum.splits)

lemma kinds_permutation:
  assumes "distinct ks" and "set ks = UNIV"
  shows "mset ks = mset [Unp, Conc, Disc, Bad_end]"
proof -
  have "set ks = set [Unp, Conc, Disc, Bad_end]"
    using assms(2) by (auto intro: kind.exhaust)
  moreover have "distinct [Unp, Conc, Disc, Bad_end]" by simp
  ultimately show ?thesis using assms(1) set_eq_iff_mset_eq_distinct by blast
qed

lemma kind_UNIV: "set [Unp, Conc, Disc, Bad_end] = UNIV"
  by (auto intro: kind.exhaust)

text \<open>
  C10. A load that succeeds leaves every collection equal to what it held before followed
  by the rows parsed from its file, and every label list likewise: it appends, and clears
  nothing. This holds in whatever order the four files are read.
\<close>

theorem load_appends:
  assumes "load_in ks fs p self = Inr self'" and "distinct ks" and "set ks = UNIV"
  shows "\<exists>du lu dc lc dd ld db lb.
           parse_unpaired_file fs p Unp = Inr (du, lu) \<and>
           parse_paired_file fs p Conc = Inr (dc, lc) \<and>
           parse_paired_file fs p Disc = Inr (dd, ld) \<and>
           parse_unpaired_file fs p Bad_end = Inr (db, lb) \<and>
           self' = \<lparr>data_unp = data_unp self @ du, lab_unp = lab_unp self @ lu,
                    data_conc = data_conc self @ dc, lab_conc = lab_conc self @ lc,
                    data_disc = data_disc self @ dd, lab_disc = lab_disc self @ ld,
                    data_bad_end = data_bad_end self @ db,
                    lab_bad_end = lab_bad_end self @ lb\<rparr>"
proof -
  from load_in_fold [OF assms(1)]
  have ok: "\<forall>k \<in> set ks. parses fs p k" and s: "self' = fold (appended fs p) ks self"
    by simp_all
  have "fold (appended fs p) ks = fold (appended fs p) [Unp, Conc, Disc, Bad_end]"
    by (rule fold_multiset_equiv) (simp_all add: appended_commute kinds_permutation assms)
  with s have s': "self' = fold (appended fs p) [Unp, Conc, Disc, Bad_end] self" by simp
  from ok assms(3) obtain du lu dc lc dd ld db lb where
    p: "parse_unpaired_file fs p Unp = Inr (du, lu)"
       "parse_paired_file fs p Conc = Inr (dc, lc)"
       "parse_paired_file fs p Disc = Inr (dd, ld)"
       "parse_unpaired_file fs p Bad_end = Inr (db, lb)"
    by (metis UNIV_I parses.simps surj_pair)
  show ?thesis
    using p s' by (cases self) simp
qed

lemma ex_parse_unp:
  "parse_unpaired_file ex_files ''p'' Unp = Inr ([ex_unpaired_loaded], [Some False])"
  by (simp add: parse_unpaired_file_def open_for_load_def ex_files_def file_name_def
      csv_eval read_unpaired_row_def py_int_eval UnpairedTuple_init_def
      ex_unpaired_loaded_def)

lemma ex_parse_conc:
  "parse_paired_file ex_files ''p'' Conc = Inr ([ex_paired_loaded], [Some True])"
proof -
  have "csv_reader (''name1,best1,secbest1,minv1,maxv1,len1,mapq1,name2,best2,secbest2,minv2,maxv2,len2,mapq2,bestconc,secbestconc,fraglen,correct''
        @ [CHR 0x0A] @
        ''7,41,30,NA,NA,100,37,8,40,-9,0,45,90,30,NA,NA,250,T'' @ [CHR 0x0A]) =
      ([paired_header, ex_row18], None)"
    by (simp add: csv_eval paired_header_def ex_row18_def)
  moreover have "load_paired_rows [paired_header, ex_row18] [] [] =
      Inr ([ex_paired_loaded], [Some True])"
    using ex_read_row18 by (simp add: paired_header_def) (simp add: ex_row18_def)
  ultimately show ?thesis
    by (simp add: parse_paired_file_def open_for_load_def ex_files_def file_name_def
        reader_end_def)
qed

lemma ex_parse_empty:
  "parse_paired_file ex_files ''p'' Disc = Inr ([], [])"
  "parse_unpaired_file ex_files ''p'' Bad_end = Inr ([], [])"
  by (simp_all add: parse_paired_file_def parse_unpaired_file_def open_for_load_def ex_files_def
      file_name_def csv_eval)

lemma ex_load: "load_in [Unp, Conc, Disc, Bad_end] ex_files ''p'' ex_dataset = Inr ex_loaded"
  by (simp add: load_file_parsed ex_parse_unp ex_parse_conc ex_parse_empty ex_dataset_def
      ex_loaded_def Dataset_init_def)

theorem load_appends_witness:
  "load_in [Unp, Conc, Disc, Bad_end] ex_files ''p'' ex_dataset = Inr ex_loaded \<and>
   distinct [Unp, Conc, Disc, Bad_end] \<and> set [Unp, Conc, Disc, Bad_end] = UNIV \<and>
   data_unp ex_dataset = [ex_unpaired_rec] \<and>
   parse_unpaired_file ex_files ''p'' Unp = Inr ([ex_unpaired_loaded], [Some False]) \<and>
   data_unp ex_loaded = [ex_unpaired_rec, ex_unpaired_loaded] \<and>
   (\<exists>du lu dc lc dd ld db lb.
      parse_unpaired_file ex_files ''p'' Unp = Inr (du, lu) \<and>
      parse_paired_file ex_files ''p'' Conc = Inr (dc, lc) \<and>
      parse_paired_file ex_files ''p'' Disc = Inr (dd, ld) \<and>
      parse_unpaired_file ex_files ''p'' Bad_end = Inr (db, lb) \<and>
      ex_loaded =
        \<lparr>data_unp = data_unp ex_dataset @ du, lab_unp = lab_unp ex_dataset @ lu,
         data_conc = data_conc ex_dataset @ dc, lab_conc = lab_conc ex_dataset @ lc,
         data_disc = data_disc ex_dataset @ dd, lab_disc = lab_disc ex_dataset @ ld,
         data_bad_end = data_bad_end ex_dataset @ db,
         lab_bad_end = lab_bad_end ex_dataset @ lb\<rparr>)"
proof -
  have d: "distinct [Unp, Conc, Disc, Bad_end]" by simp
  from load_appends [OF ex_load d kind_UNIV] ex_load d kind_UNIV ex_parse_unp
  show ?thesis
    by (simp add: ex_dataset_def ex_loaded_def)
qed

section \<open>Saving and loading again\<close>

lemma ex_add_unpaired: "add_unpaired Dataset_init ex_unpaired_al (Some True) = Inr ex_dataset"
  by (simp add: add_unpaired_def from_alignment_def ex_unpaired_al_def UnpairedTuple_init_def
      ex_dataset_def ex_unpaired_rec_def Dataset_init_def)

lemma ex_file_text:
  "file_text ex_dataset Unp =
     ''name,best,secbest,minv,maxv,len,mapq,olen,correct'' @ [CHR 0x0A] @
     ''r1,42,30,0,50,100,37,0,T'' @ [CHR 0x0A]"
  by (simp add: file_text_def unpaired_header_def ex_dataset_def ex_unpaired_rec_def
      Dataset_init_def UnpairedTuple_iter_def str_eval)

lemma ex_csv_reader:
  "csv_reader (''name,best,secbest,minv,maxv,len,mapq,olen,correct'' @ [CHR 0x0A] @
     ''r1,42,30,0,50,100,37,0,T'' @ [CHR 0x0A]) =
   ([[''name'', ''best'', ''secbest'', ''minv'', ''maxv'', ''len'', ''mapq'', ''olen'', ''correct''],
     [''r1'', ''42'', ''30'', ''0'', ''50'', ''100'', ''37'', ''0'', ''T'']], None)"
  by (simp add: csv_eval)

text \<open>
  Whatever the dataset, the prefix and the compression flag, the first row that
  \<open>csv_reader\<close> yields for a saved file is its header, whatever the rows after it hold, and
  the file is found again under the name it was saved under.
\<close>

lemma split_lines_first:
  "CHR 0x0A \<notin> set h \<Longrightarrow>
     split_lines cur (h @ CHR 0x0A # rest) = (cur @ h @ [CHR 0x0A]) # split_lines [] rest"
  by (induction h arbitrary: cur) auto

lemma read_records_first:
  assumes "process_line parse_reset line = Inr self'" and "rd_state self' = START_RECORD"
  shows "\<exists>rows err. read_records parse_reset (line # lines) = (rd_fields self' # rows, err)"
  using assms by (cases "read_records parse_reset lines") simp

lemma process_header_line:
  "process_line parse_reset
     (join '','' (if is_paired k then paired_header else unpaired_header) @ [CHR 0x0A]) =
   Inr \<lparr>rd_state = START_RECORD,
        rd_fields = (if is_paired k then paired_header else unpaired_header), rd_field = []\<rparr>"
  by (simp add: paired_header_def unpaired_header_def csv_eval)

lemma csv_reader_header:
  "\<exists>rows err. csv_reader (file_text self k) =
     ((if is_paired k then paired_header else unpaired_header) # rows, err)"
proof -
  let ?h = "join '','' (if is_paired k then paired_header else unpaired_header)"
  have nl: "CHR 0x0A \<notin> set ?h"
    by (simp add: paired_header_def unpaired_header_def)
  have "\<exists>rest. file_text self k = ?h @ CHR 0x0A # rest"
    by (simp add: file_text_def)
  then obtain rest where t: "file_text self k = ?h @ CHR 0x0A # rest" ..
  have l: "file_lines (file_text self k) = (?h @ [CHR 0x0A]) # split_lines [] rest"
    unfolding t file_lines_def using split_lines_first [OF nl, of "[]" rest] by simp
  from read_records_first [OF process_header_line, of k "split_lines [] rest"]
  show ?thesis
    unfolding csv_reader_def l by simp
qed

lemma load_file_saved_unpaired:
  assumes "\<not> is_paired k" and "open_for_load fs (file_name p k) = Inr (file_text ds k)"
  shows "load_file fs p self k = Inl AssertionError"
proof -
  from csv_reader_header [of ds k] assms(1) obtain rows err where
    c: "csv_reader (file_text ds k) = (unpaired_header # rows, err)"
    by auto
  have "load_unpaired_rows (unpaired_header # rows) d l = Inl AssertionError" for d l
    by (simp add: unpaired_header_def)
  with assms c show ?thesis
    by (cases k) (simp_all add: load_file_def)
qed

lemma saved_name_inj: "saved_name p c k = saved_name p c k' \<Longrightarrow> k = k'"
  by (cases c; cases k; cases k') (simp_all add: saved_name_def file_name_def)

lemma gz_not_saved: "file_name p k @ ''.gz'' \<noteq> saved_name p False k'"
  by (cases k; cases k') (simp_all add: saved_name_def file_name_def)

lemma save_in_other:
  "\<forall>k \<in> set ks. n \<noteq> saved_name p c k \<Longrightarrow> save_in ks fs p c ds n = fs n"
  by (induction ks arbitrary: fs) (auto simp: save_file_def saved_name_def Let_def)

lemma save_in_saved:
  "k \<in> set ks \<Longrightarrow> save_in ks fs p c ds (saved_name p c k) = Some (file_text ds k)"
proof (induction ks arbitrary: fs)
  case Nil
  then show ?case by simp
next
  case (Cons k' ks)
  show ?case
  proof (cases "k \<in> set ks")
    case True
    from Cons.IH [OF this] show ?thesis by simp
  next
    case False
    with Cons.prems have k': "k' = k" by simp
    from False have "\<forall>k'' \<in> set ks. saved_name p c k \<noteq> saved_name p c k''"
      by (auto dest: saved_name_inj)
    from save_in_other [OF this] k' show ?thesis
      by (simp add: save_file_def saved_name_def Let_def)
  qed
qed

lemma open_saved:
  assumes "k \<in> set ks"
  shows "open_for_load (save_in ks Map.empty p c ds) (file_name p k) = Inr (file_text ds k)"
proof (cases c)
  case True
  with save_in_saved [OF assms, of Map.empty p c ds] show ?thesis
    by (simp add: open_for_load_def saved_name_def)
next
  case False
  have "save_in ks Map.empty p False ds (file_name p k @ ''.gz'') = None"
    by (simp add: save_in_other gz_not_saved)
  with False save_in_saved [OF assms, of Map.empty p c ds] show ?thesis
    by (simp add: open_for_load_def saved_name_def)
qed

lemma load_after_save_Unp:
  "load_file (save Map.empty p c ds) p self Unp = Inl AssertionError"
proof -
  have np: "\<not> is_paired Unp" by simp
  have o: "open_for_load (save_in [Unp, Conc, Disc, Bad_end] Map.empty p c ds) (file_name p Unp) =
      Inr (file_text ds Unp)"
    by (rule open_saved) simp
  show ?thesis
    unfolding save_def by (rule load_file_saved_unpaired [OF np o])
qed

lemma load_after_save: "load (save Map.empty p c ds) p self = Inl AssertionError"
  by (simp add: load_def load_after_save_Unp)

text \<open>
  C1. The round trip fails on the code. No dataset that \<open>save\<close> has written to an empty
  file system loads again, compressed or not: the header row of the unpaired file has nine
  tokens and \<open>load\<close> asserts eight. So it is for the dataset holding the specification's
  example record, and for the empty dataset. The data row on its own does not read
  either: its name is handed to \<open>int\<close> with the numbers.
\<close>

theorem save_then_load_fails:
  "load (save Map.empty fnprefix compress self) fnprefix self' = Inl AssertionError \<and>
   add_unpaired Dataset_init ex_unpaired_al (Some True) = Inr ex_dataset \<and>
   load (save Map.empty ''p'' False ex_dataset) ''p'' Dataset_init = Inl AssertionError \<and>
   load (save Map.empty ''p'' True ex_dataset) ''p'' Dataset_init = Inl AssertionError \<and>
   load (save Map.empty ''p'' True Dataset_init) ''p'' Dataset_init = Inl AssertionError \<and>
   read_unpaired_row [''r1'', ''42'', ''30'', ''0'', ''50'', ''100'', ''37'', ''0'', ''T''] =
     Inl ValueError"
proof -
  have t: "save Map.empty ''p'' c ex_dataset (if c then ''p_unp.csv.gz'' else ''p_unp.csv'') =
      Some (file_text ex_dataset Unp)" for c
    by (simp add: save_def save_file_def file_name_def)
  have g: "save Map.empty ''p'' False ex_dataset ''p_unp.csv.gz'' = None"
    by (simp add: save_def save_file_def file_name_def)
  have r: "csv_reader (file_text ex_dataset Unp) =
      ([unpaired_header, [''r1'', ''42'', ''30'', ''0'', ''50'', ''100'', ''37'', ''0'', ''T'']], None)"
    unfolding ex_file_text ex_csv_reader by (simp add: unpaired_header_def)
  have "load_file (save Map.empty ''p'' c ex_dataset) ''p'' Dataset_init Unp = Inl AssertionError"
    for c
    using t [of c] g r
    by (cases c)
      (simp_all add: load_file_def open_for_load_def file_name_def Dataset_init_def
        unpaired_header_def)
  then have 1: "load (save Map.empty ''p'' c ex_dataset) ''p'' Dataset_init = Inl AssertionError"
    for c
    by (simp add: load_def)
  have "load_file (save Map.empty ''p'' True Dataset_init) ''p'' Dataset_init Unp =
      Inl AssertionError"
    by (simp add: load_file_def open_for_load_def file_name_def Dataset_init_def save_def
        save_file_def file_text_def unpaired_header_def csv_eval)
  then have 2: "load (save Map.empty ''p'' True Dataset_init) ''p'' Dataset_init =
      Inl AssertionError"
    by (simp add: load_def)
  have 3: "read_unpaired_row [''r1'', ''42'', ''30'', ''0'', ''50'', ''100'', ''37'', ''0'', ''T''] =
     Inl ValueError"
    by (simp add: read_unpaired_row_def py_int_eval)
  from load_after_save [of fnprefix compress self self'] ex_add_unpaired 1 [of False]
    1 [of True] 2 3
  show ?thesis by simp
qed

lemma ex_add_unpaired_na: "add_unpaired Dataset_init ex_al1 (Some True) = Inr ex_na_dataset"
  by (simp add: add_unpaired_def from_alignment_def ex_al1_def UnpairedTuple_init_def
      ex_na_dataset_def ex_na_rec_def Dataset_init_def)

lemma ex_file_text_na:
  "file_text ex_na_dataset Unp =
     ''name,best,secbest,minv,maxv,len,mapq,olen,correct'' @ [CHR 0x0A] @
     ''r1/1,42,30,NA,NA,100,37,0,T'' @ [CHR 0x0A]"
  by (simp add: file_text_def unpaired_header_def ex_na_dataset_def ex_na_rec_def
      Dataset_init_def UnpairedTuple_iter_def str_eval)

lemma ex_add_concordant_num:
  "add_concordant ex_fragment_length Dataset_init ex_num1 ex_num2 (Some True) (Some False) =
     Inr ex_num_dataset"
  by (simp add: add_concordant_def from_alignments_def second_best_pair_def
      valid_bounds_pair_def concordant_scores_def PairedTuple_init_def ex_num1_def ex_num2_def
      ex_al1_def ex_fragment_length_def ex_num_dataset_def ex_num_pair_def Dataset_init_def)

lemma ex_file_text_num:
  "file_text ex_num_dataset Conc =
     ''name1,best1,secbest1,minv1,maxv1,len1,mapq1,name2,best2,secbest2,minv2,maxv2,len2,mapq2,bestconc,secbestconc,fraglen,correct''
     @ [CHR 0x0A] @
     ''7,42,30,NA,NA,100,37,8,40,7,NA,NA,90,30,NA,NA,250,T'' @ [CHR 0x0A] @
     ''8,40,7,NA,NA,90,30,7,42,30,NA,NA,100,37,NA,NA,250,F'' @ [CHR 0x0A]"
  by (simp add: file_text_def paired_header_def ex_num_dataset_def ex_num_pair_def
      Dataset_init_def PairedTuple_iter_def str_eval)

lemma ex_csv_reader_num:
  "csv_reader
     (''name1,best1,secbest1,minv1,maxv1,len1,mapq1,name2,best2,secbest2,minv2,maxv2,len2,mapq2,bestconc,secbestconc,fraglen,correct''
      @ [CHR 0x0A] @
      ''7,42,30,NA,NA,100,37,8,40,7,NA,NA,90,30,NA,NA,250,T'' @ [CHR 0x0A] @
      ''8,40,7,NA,NA,90,30,7,42,30,NA,NA,100,37,NA,NA,250,F'' @ [CHR 0x0A]) =
   ([paired_header,
     [''7'', ''42'', ''30'', ''NA'', ''NA'', ''100'', ''37'', ''8'', ''40'', ''7'', ''NA'', ''NA'',
      ''90'', ''30'', ''NA'', ''NA'', ''250'', ''T''],
     [''8'', ''40'', ''7'', ''NA'', ''NA'', ''90'', ''30'', ''7'', ''42'', ''30'', ''NA'', ''NA'',
      ''100'', ''37'', ''NA'', ''NA'', ''250'', ''F'']], None)"
  by (simp add: csv_eval paired_header_def)

lemma ex_load_paired_rows_num:
  "load_paired_rows
     [paired_header,
      [''7'', ''42'', ''30'', ''NA'', ''NA'', ''100'', ''37'', ''8'', ''40'', ''7'', ''NA'', ''NA'',
       ''90'', ''30'', ''NA'', ''NA'', ''250'', ''T''],
      [''8'', ''40'', ''7'', ''NA'', ''NA'', ''90'', ''30'', ''7'', ''42'', ''30'', ''NA'', ''NA'',
       ''100'', ''37'', ''NA'', ''NA'', ''250'', ''F'']] [] [] =
   Inr (ex_num_pair (PInt 7) (PInt 8), [Some True, Some False])"
  by (simp add: paired_header_def read_paired_row_def py_int_eval PairedTuple_init_def
      ex_num_pair_def)

lemma ex_load_file_num:
  "load_file (save Map.empty ''p'' True ex_num_dataset) ''p'' Dataset_init Conc =
     Inr ex_num_loaded"
proof -
  have o: "open_for_load (save Map.empty ''p'' True ex_num_dataset) (file_name ''p'' Conc) =
      Inr (file_text ex_num_dataset Conc)"
    unfolding save_def by (rule open_saved) simp
  have c: "csv_reader (file_text ex_num_dataset Conc) =
   ([paired_header,
     [''7'', ''42'', ''30'', ''NA'', ''NA'', ''100'', ''37'', ''8'', ''40'', ''7'', ''NA'', ''NA'',
      ''90'', ''30'', ''NA'', ''NA'', ''250'', ''T''],
     [''8'', ''40'', ''7'', ''NA'', ''NA'', ''90'', ''30'', ''7'', ''42'', ''30'', ''NA'', ''NA'',
      ''100'', ''37'', ''NA'', ''NA'', ''250'', ''F'']], None)"
    unfolding ex_file_text_num by (rule ex_csv_reader_num)
  show ?thesis
    unfolding load_file_def o
    by (simp add: c ex_load_paired_rows_num reader_end_def ex_num_loaded_def Dataset_init_def
        del: load_paired_rows.simps)
qed

text \<open>
  C8. The propagation fails on the code, in its second half. \<open>save\<close> writes the token NA
  in the min and max columns of a record without bounds (columns 3 and 4 of the row; also
  10 and 11 of a paired row). \<open>load\<close> does not map it back: whatever was saved, it raises
  an AssertionError at the header row of the unpaired file, before it reads a data row.
  So it is for the dataset of one unpaired read without bounds. On a concordant file
  taken alone, whose width assertion agrees with what \<open>save\<close> writes, the rows of reads
  named 7 and 8 load with their bounds absent.
\<close>

theorem na_written_but_not_loaded:
  "file_text (Dataset_init\<lparr>data_unp := [r\<lparr>minv := PNone, maxv := PNone\<rparr>],
                          lab_unp := [correct]\<rparr>) Unp =
     join '','' unpaired_header @ [CHR 0x0A] @
     join '',''
       [field_str (rdname r), field_str (bestsc r), field_str (best2sc r), ''NA'', ''NA'',
        field_str (rdlen r), field_str (mapq r), field_str (ordlen r), correct_str correct] @
     [CHR 0x0A] \<and>
   file_text (Dataset_init\<lparr>data_conc := [p\<lparr>minv1 := PNone, maxv1 := PNone, minv2 := PNone,
                                           maxv2 := PNone\<rparr>],
                          lab_conc := [correct]\<rparr>) Conc =
     join '','' paired_header @ [CHR 0x0A] @
     join '',''
       [field_str (rdname1 p), field_str (bestsc1 p), field_str (best2sc1 p), ''NA'', ''NA'',
        field_str (rdlen1 p), field_str (mapq1 p),
        field_str (rdname2 p), field_str (bestsc2 p), field_str (best2sc2 p), ''NA'', ''NA'',
        field_str (rdlen2 p), field_str (mapq2 p),
        field_str (bestconcsc p), field_str (best2concsc p), field_str (fraglen p),
        correct_str correct] @
     [CHR 0x0A] \<and>
   load (save Map.empty fnprefix compress self) fnprefix self' = Inl AssertionError \<and>
   add_unpaired Dataset_init ex_al1 (Some True) = Inr ex_na_dataset \<and>
   file_text ex_na_dataset Unp =
     ''name,best,secbest,minv,maxv,len,mapq,olen,correct'' @ [CHR 0x0A] @
     ''r1/1,42,30,NA,NA,100,37,0,T'' @ [CHR 0x0A] \<and>
   load (save Map.empty ''p'' True ex_na_dataset) ''p'' Dataset_init = Inl AssertionError \<and>
   add_concordant ex_fragment_length Dataset_init ex_num1 ex_num2 (Some True) (Some False) =
     Inr ex_num_dataset \<and>
   load_file (save Map.empty ''p'' True ex_num_dataset) ''p'' Dataset_init Conc =
     Inr ex_num_loaded \<and>
   map minv1 (data_conc ex_num_loaded) = [PNone, PNone] \<and>
   map maxv1 (data_conc ex_num_loaded) = [PNone, PNone]"
proof -
  have 1: "file_text (Dataset_init\<lparr>data_unp := [r\<lparr>minv := PNone, maxv := PNone\<rparr>],
                          lab_unp := [correct]\<rparr>) Unp =
     join '','' unpaired_header @ [CHR 0x0A] @
     join '',''
       [field_str (rdname r), field_str (bestsc r), field_str (best2sc r), ''NA'', ''NA'',
        field_str (rdlen r), field_str (mapq r), field_str (ordlen r), correct_str correct] @
     [CHR 0x0A]"
    by (simp add: file_text_def Dataset_init_def UnpairedTuple_iter_def row_tokens_def
        field_str_def [of PNone])
  have 2: "file_text (Dataset_init\<lparr>data_conc := [p\<lparr>minv1 := PNone, maxv1 := PNone,
                                           minv2 := PNone, maxv2 := PNone\<rparr>],
                          lab_conc := [correct]\<rparr>) Conc =
     join '','' paired_header @ [CHR 0x0A] @
     join '',''
       [field_str (rdname1 p), field_str (bestsc1 p), field_str (best2sc1 p), ''NA'', ''NA'',
        field_str (rdlen1 p), field_str (mapq1 p),
        field_str (rdname2 p), field_str (bestsc2 p), field_str (best2sc2 p), ''NA'', ''NA'',
        field_str (rdlen2 p), field_str (mapq2 p),
        field_str (bestconcsc p), field_str (best2concsc p), field_str (fraglen p),
        correct_str correct] @
     [CHR 0x0A]"
    by (simp add: file_text_def Dataset_init_def PairedTuple_iter_def row_tokens_def
        field_str_def [of PNone])
  have 3: "map minv1 (data_conc ex_num_loaded) = [PNone, PNone]"
    "map maxv1 (data_conc ex_num_loaded) = [PNone, PNone]"
    by (simp_all add: ex_num_loaded_def ex_num_pair_def Dataset_init_def)
  from 1 2 3 load_after_save [of fnprefix compress self self']
    load_after_save [of "''p''" True ex_na_dataset Dataset_init]
    ex_add_unpaired_na ex_file_text_na ex_add_concordant_num ex_load_file_num
  show ?thesis by blast
qed

section \<open>The tabular export\<close>

text \<open>
  C9 (amended). The table built from a list of paired records and their labels has the
  eighteen columns name_1, best1_1, best2_1, minv_1, maxv_1, rdlen_1, mapq_1, name_2,
  best1_2, best2_2, minv_2, maxv_2, rdlen_2, mapq_2, best1conc, best2conc, fraglen and
  correct: as many as the paired header of \<open>save\<close>, holding the same fields in the same
  order (column \<open>i\<close> is field \<open>i\<close> of every record's field sequence, the last one the
  labels), under names of its own.
\<close>

theorem paired_table_columns:
  "map fst (PairedTuple_to_data_frames ptups (Some cor)) =
     [''name_1'', ''best1_1'', ''best2_1'', ''minv_1'', ''maxv_1'', ''rdlen_1'', ''mapq_1'',
      ''name_2'', ''best1_2'', ''best2_2'', ''minv_2'', ''maxv_2'', ''rdlen_2'', ''mapq_2'',
      ''best1conc'', ''best2conc'', ''fraglen'', ''correct''] \<and>
   length (PairedTuple_to_data_frames ptups (Some cor)) = length paired_header \<and>
   map snd (PairedTuple_to_data_frames ptups (Some cor)) =
     map (\<lambda>i. Fields (map (\<lambda>p. PairedTuple_iter p ! i) ptups)) [0..<17] @ [Labels cor]"
  by (simp add: PairedTuple_to_data_frames_def paired_column_names_def columnize_def
      paired_header_def PairedTuple_iter_def upt_rec)

text \<open>
  On the empty dataset the export of the whole dataset returns no table, and the column
  names of the concordant table are not the names of the header that \<open>save\<close> writes.
\<close>

theorem to_data_frames_fails_and_names_differ:
  "to_data_frames Dataset_init = Inl TypeError \<and>
   map fst (PairedTuple_to_data_frames (data_conc Dataset_init) (Some (lab_conc Dataset_init)))
     \<noteq> paired_header"
  by (simp add: to_data_frames_def UnpairedTuple_to_data_frame_def PairedTuple_to_data_frames_def
      paired_column_names_def columnize_def paired_header_def Dataset_init_def)

end
